theory Spec2Isabelle
  imports Complex_Main "HOL-Library.Sublist"
begin

section \<open>Python values\<close>

text \<open>
  The extraction pipeline handles two kinds of data: rows and dictionaries that the
  program builds itself (fixed keys, modelled as records) and values that come out of
  \<^verbatim>\<open>json.loads\<close> on a model reply or a request body (any JSON value, modelled by
  \<open>json\<close>). A JSON object is an association list that holds each key once, read with
  \<open>map_of\<close>; a finite float is the rational it denotes. A Python string is its UTF-8 text: equality and
  the substring test \<^verbatim>\<open>a in b\<close> on strings are equality and \<open>sublist\<close> on the encoded
  texts, and a character is a byte that is not a continuation byte together with the
  continuation bytes that follow it.
\<close>

datatype json = JNull | JBool bool | JInt int | JFloat rat | JStr string
  | JArr "json list" | JObj "(string \<times> json) list"

datatype py_error = AttributeError | TypeError | KeyError | NameError | ValueError
  | JSONDecodeError | OSError | APIError | DatabaseError | OverflowError

type_synonym pydict = "(string \<times> json) list"

text \<open>\<^verbatim>\<open>d.get(k, default)\<close> on a dict.\<close>

definition dict_get :: "pydict \<Rightarrow> string \<Rightarrow> json \<Rightarrow> json" where
  "dict_get d k dflt = (case map_of d k of None \<Rightarrow> dflt | Some v \<Rightarrow> v)"

text \<open>\<^verbatim>\<open>x.get(k, default)\<close> on any value: only a dict has the method.\<close>

definition py_get :: "json \<Rightarrow> string \<Rightarrow> json \<Rightarrow> py_error + json" where
  "py_get x k dflt = (case x of JObj d \<Rightarrow> Inr (dict_get d k dflt) | _ \<Rightarrow> Inl AttributeError)"

text \<open>
  \<^verbatim>\<open>str.lower()\<close> and \<^verbatim>\<open>str.strip()\<close> follow the Unicode tables of the Python runtime.
  The model takes them as they are: every function that lowers or strips a string has
  the runtime's function as an argument, here \<open>lower\<close>, and nothing is assumed of it.
  \<^verbatim>\<open>x.lower()\<close> on any value: only a string has the method.
\<close>

definition lower_of :: "(string \<Rightarrow> string) \<Rightarrow> json \<Rightarrow> py_error + string" where
  "lower_of lower x = (case x of JStr s \<Rightarrow> Inr (lower s) | _ \<Rightarrow> Inl AttributeError)"

text \<open>The characters of a string, and \<^verbatim>\<open>len(s)\<close>, their number.\<close>

definition continuation :: "char \<Rightarrow> bool" where
  "continuation c = (let n = (of_char c :: nat) in 128 \<le> n \<and> n < 192)"

definition characters :: "string \<Rightarrow> string list" where
  "characters s =
     (let (rest, groups) =
            foldr (\<lambda>c (rest, groups).
                     if continuation c then (c # rest, groups) else ([], (c # rest) # groups))
                  s ([], [])
      in if rest = [] then groups else rest # groups)"

definition str_len :: "string \<Rightarrow> nat" where
  "str_len s = length (filter (\<lambda>c. \<not> continuation c) s)"

text \<open>\<^verbatim>\<open>i == v\<close> for an int \<open>i\<close> and \<^verbatim>\<open>s == v\<close> for a string \<open>s\<close>: numbers compare by
  value (a bool is the int 0 or 1), values of different kinds are unequal.\<close>

definition int_eq :: "int \<Rightarrow> json \<Rightarrow> bool" where
  "int_eq i v = (case v of JInt j \<Rightarrow> i = j | JFloat q \<Rightarrow> of_int i = q
     | JBool b \<Rightarrow> i = (if b then 1 else 0) | _ \<Rightarrow> False)"

definition str_eq :: "string \<Rightarrow> json \<Rightarrow> bool" where
  "str_eq s v = (case v of JStr t \<Rightarrow> s = t | _ \<Rightarrow> False)"

text \<open>Truth value of a JSON value in a condition.\<close>

definition truthy :: "json \<Rightarrow> bool" where
  "truthy v = (case v of JNull \<Rightarrow> False | JBool b \<Rightarrow> b | JInt i \<Rightarrow> i \<noteq> 0
     | JFloat q \<Rightarrow> q \<noteq> 0 | JStr s \<Rightarrow> s \<noteq> [] | JArr xs \<Rightarrow> xs \<noteq> [] | JObj d \<Rightarrow> d \<noteq> [])"

text \<open>Iterating over a value in a \<^verbatim>\<open>for\<close>: a list yields its elements, a string its
  characters, a dict its keys; anything else is not iterable.\<close>

definition py_iter :: "json \<Rightarrow> py_error + json list" where
  "py_iter v = (case v of JArr xs \<Rightarrow> Inr xs
     | JStr s \<Rightarrow> Inr (map JStr (characters s))
     | JObj d \<Rightarrow> Inr (map (\<lambda>kv. JStr (fst kv)) d)
     | _ \<Rightarrow> Inl TypeError)"

section \<open>CSI division matching\<close>

text \<open>
  A construction division as \<^verbatim>\<open>ConstructionDivision.to_dict()\<close> hands it to the service;
  the matcher reads the keys \<^verbatim>\<open>id\<close>, \<^verbatim>\<open>name\<close> and \<^verbatim>\<open>code\<close> only. The table declares
  \<^verbatim>\<open>id\<close> as primary key and \<^verbatim>\<open>code\<close> as unique, both not null.
\<close>

record division =
  div_id :: int
  div_name :: string
  div_code :: string

definition division_to_dict :: "division \<Rightarrow> json" where
  "division_to_dict d =
     JObj [(''id'', JInt (div_id d)), (''name'', JStr (div_name d)), (''code'', JStr (div_code d))]"

definition default_division :: division where
  "default_division = \<lparr>div_id = 1, div_name = ''General'', div_code = ''01 00 00''\<rparr>"

definition exact_match :: "pydict \<Rightarrow> division \<Rightarrow> bool" where
  "exact_match csi d \<longleftrightarrow>
     int_eq (div_id d) (dict_get csi ''id'' JNull) \<or> str_eq (div_code d) (dict_get csi ''code'' JNull)"

definition fuzzy_match :: "(string \<Rightarrow> string) \<Rightarrow> string \<Rightarrow> division \<Rightarrow> bool" where
  "fuzzy_match lower division_name d \<longleftrightarrow>
     sublist division_name (lower (div_name d)) \<or> sublist (lower (div_name d)) division_name"

text \<open>The two \<^verbatim>\<open>for div in available_divisions\<close> loops, each returning at its first hit.\<close>

fun exact_loop :: "pydict \<Rightarrow> division list \<Rightarrow> division option" where
  "exact_loop csi [] = None"
| "exact_loop csi (d # ds) = (if exact_match csi d then Some d else exact_loop csi ds)"

fun fuzzy_loop :: "(string \<Rightarrow> string) \<Rightarrow> string \<Rightarrow> division list \<Rightarrow> division option" where
  "fuzzy_loop lower division_name [] = None"
| "fuzzy_loop lower division_name (d # ds) =
     (if fuzzy_match lower division_name d then Some d else fuzzy_loop lower division_name ds)"

text \<open>
  \<^verbatim>\<open>_find_matching_division(csi_division, available_divisions)\<close>. The argument is what the
  model put under \<^verbatim>\<open>csiDivision\<close>: \<^verbatim>\<open>.get\<close> raises unless it is a dict, and
  \<^verbatim>\<open>.get('name', '').lower()\<close> raises unless the name is absent or a string. The name is
  read after the first loop, also when the list is empty.
\<close>

definition find_matching_division ::
  "(string \<Rightarrow> string) \<Rightarrow> json \<Rightarrow> division list \<Rightarrow> py_error + division" where
  "find_matching_division lower csi_division available_divisions =
     (case csi_division of
        JObj csi \<Rightarrow>
          (case exact_loop csi available_divisions of
             Some d \<Rightarrow> Inr d
           | None \<Rightarrow>
              (case lower_of lower (dict_get csi ''name'' (JStr [])) of
                 Inl e \<Rightarrow> Inl e
               | Inr division_name \<Rightarrow>
                  (case fuzzy_loop lower division_name available_divisions of
                     Some d \<Rightarrow> Inr d
                   | None \<Rightarrow>
                      (case available_divisions of
                         [] \<Rightarrow> Inr default_division
                       | d # _ \<Rightarrow> Inr d))))
      | _ \<Rightarrow> Inl AttributeError)"

text \<open>The name entry of a \<^verbatim>\<open>csiDivision\<close> dict is usable: absent, or a string.\<close>

definition name_is_text :: "pydict \<Rightarrow> bool" where
  "name_is_text csi = (case map_of csi ''name'' of None \<Rightarrow> True | Some (JStr s) \<Rightarrow> True | Some _ \<Rightarrow> False)"

section \<open>Floating-point arithmetic\<close>

text \<open>
  A Python float is an IEEE binary64 number. A finite one is a rational, and division and
  multiplication return the exact result rounded to the nearest representable number,
  ties to the even significand. \<open>round_double\<close> is that rounding (53 significant bits,
  exponents from \<open>-1074\<close> up). A result that rounds to \<open>2\<^sup>1\<^sup>0\<^sup>2\<^sup>4\<close> or beyond is the
  infinity; \<open>overflows\<close> tells so of a rounded result. A float read from JSON is finite.
\<close>

definition round_half_even :: "rat \<Rightarrow> int" where
  "round_half_even q = (let f = \<lfloor>q\<rfloor>; d = q - of_int f in
     if d < 1/2 then f else if 1/2 < d then f + 1 else if even f then f else f + 1)"

text \<open>The number of binary digits of a positive int, and \<open>\<lfloor>log\<^sub>2 q\<rfloor>\<close> of a positive
  rational, from the bit lengths of its numerator and denominator.\<close>

function bit_length :: "int \<Rightarrow> int" where
  "bit_length n = (if n \<le> 0 then 0 else 1 + bit_length (n div 2))"
  by pat_completeness auto
termination
  by (relation "measure (\<lambda>n. nat n)") auto

declare bit_length.simps [simp del]

definition ilog2 :: "rat \<Rightarrow> int" where
  "ilog2 q = (let (a, b) = quotient_of q;
                  k = bit_length a - bit_length b
              in if 2 powi k \<le> q then k else k - 1)"

definition round_double :: "rat \<Rightarrow> rat" where
  "round_double q = (if q = 0 then 0 else
     let m = \<bar>q\<bar>; e = max (ilog2 m - 52) (- 1074)
     in sgn q * of_int (round_half_even (m / 2 powi e)) * 2 powi e)"

definition overflows :: "rat \<Rightarrow> bool" where
  "overflows x \<longleftrightarrow> 2 ^ 1024 \<le> \<bar>x\<bar>"

text \<open>\<^verbatim>\<open>round(x, 2)\<close> on a float: the float nearest to the decimal with two places nearest
  to \<open>x\<close>.\<close>

definition py_round2 :: "rat \<Rightarrow> rat" where
  "py_round2 x = round_double (of_int (round_half_even (x * 100)) / 100)"

text \<open>\<^verbatim>\<open>int(x)\<close> on a finite float: truncation towards zero.\<close>

definition py_int :: "rat \<Rightarrow> int" where
  "py_int x = (if 0 \<le> x then \<lfloor>x\<rfloor> else \<lceil>x\<rceil>)"

text \<open>A Python number: an int (a bool counts as 0 or 1) or a float. Arithmetic on a
  value that is not a number raises \<^verbatim>\<open>TypeError\<close>.\<close>

datatype number = NInt int | NFloat rat

definition to_number :: "json \<Rightarrow> py_error + number" where
  "to_number v = (case v of JInt i \<Rightarrow> Inr (NInt i) | JBool b \<Rightarrow> Inr (NInt (if b then 1 else 0))
     | JFloat q \<Rightarrow> Inr (NFloat q) | _ \<Rightarrow> Inl TypeError)"

definition num_val :: "number \<Rightarrow> rat" where
  "num_val x = (case x of NInt i \<Rightarrow> of_int i | NFloat q \<Rightarrow> q)"

text \<open>\<^verbatim>\<open>n + r\<close> and \<^verbatim>\<open>n / r\<close> for an int \<open>n\<close>, the length of a list: exact on two ints
  for the sum, correctly rounded for the quotient; with a float, \<open>n\<close> is converted
  first. The quotient by a positive int is at most \<open>n\<close>; the quotient by a small float
  can be the infinity, which is \<open>None\<close> here.\<close>

definition py_add :: "int \<Rightarrow> number \<Rightarrow> number" where
  "py_add n r = (case r of NInt i \<Rightarrow> NInt (n + i)
     | NFloat q \<Rightarrow> NFloat (round_double (round_double (of_int n) + q)))"

definition py_truediv :: "int \<Rightarrow> number \<Rightarrow> rat option" where
  "py_truediv n r = (case r of NInt i \<Rightarrow> Some (round_double (of_int n / of_int i))
     | NFloat q \<Rightarrow>
         (let d = round_double (round_double (of_int n) / q)
          in if overflows d then None else Some d))"

text \<open>\<^verbatim>\<open>x * k\<close> for a float \<open>x\<close> and a small int \<open>k\<close>.\<close>

definition py_fmul :: "rat \<Rightarrow> int \<Rightarrow> rat" where
  "py_fmul x k = round_double (x * of_int k)"

section \<open>Results of the two analyses\<close>

text \<open>
  One processed item of \<^verbatim>\<open>_parse_smart_extraction_response\<close>. The keys are fixed; the
  values are what the model replied, except \<^verbatim>\<open>csiDivision\<close>, which is the matched division,
  and \<^verbatim>\<open>location\<close>, which is a dict whenever parsing succeeded.
\<close>

record item =
  itemName :: json
  category :: json
  csiDivision :: division
  procurementData :: json
  location :: pydict
  confidence :: json

record smart_result =
  sm_success :: bool
  sm_error :: "py_error option"
  extractedItems :: "item list"
  sm_summary :: json

text \<open>The result of \<^verbatim>\<open>enhanced_nlp_analysis\<close>: \<^verbatim>\<open>{'success': True, 'data': ...}\<close> or
  \<^verbatim>\<open>{'success': False, 'error': ...}\<close> (timestamps left out).\<close>

datatype nlp_result = NlpOk json | NlpFailed py_error

record insights =
  totalDataPoints :: number
  requirementsCoverage :: int
  recommendedActions :: "string list"
  extractionQuality :: string

section \<open>Combined insights\<close>

text \<open>The value \<^verbatim>\<open>requirements_count\<close> holds before the arithmetic starts.\<close>

definition requirements_count :: "nlp_result \<Rightarrow> py_error + json" where
  "requirements_count nlp_result =
     (case nlp_result of
        NlpFailed e \<Rightarrow> Inr (JInt 0)
      | NlpOk data \<Rightarrow>
          if truthy data then
            (case py_get data ''summary'' (JObj []) of
               Inl e \<Rightarrow> Inl e
             | Inr summary \<Rightarrow> py_get summary ''totalRequirements'' (JInt 0))
          else Inr (JInt 0))"

definition quality_of :: "number \<Rightarrow> int \<Rightarrow> string" where
  "quality_of total_data_points requirements_coverage =
     (if 15 \<le> num_val total_data_points \<and> 70 \<le> requirements_coverage then ''excellent''
      else if 10 \<le> num_val total_data_points \<and> 50 \<le> requirements_coverage then ''good''
      else if 5 \<le> num_val total_data_points \<and> 30 \<le> requirements_coverage then ''fair''
      else ''poor'')"

text \<open>\<^verbatim>\<open>min(100, int((extracted_items_count / requirements_count) * 100))\<close> under its
  condition. With a float count the quotient or the product can be the infinity, and
  \<^verbatim>\<open>int\<close> of it raises \<^verbatim>\<open>OverflowError\<close>; with an int count both stay below the number
  of items times 100.\<close>

definition coverage_of :: "int \<Rightarrow> number \<Rightarrow> py_error + int" where
  "coverage_of extracted_items_count requirements_count' =
     (if 0 < num_val requirements_count' \<and> 0 < extracted_items_count
      then (case py_truediv extracted_items_count requirements_count' of
              None \<Rightarrow> Inl OverflowError
            | Some ratio \<Rightarrow>
                if (case requirements_count' of NInt i \<Rightarrow> False | NFloat q \<Rightarrow> overflows (py_fmul ratio 100))
                then Inl OverflowError
                else Inr (min 100 (py_int (py_fmul ratio 100))))
      else Inr 0)"

definition insights_body :: "smart_result \<Rightarrow> nlp_result \<Rightarrow> py_error + insights" where
  "insights_body smart_result nlp_result =
     (let extracted_items_count = int (length (extractedItems smart_result)) in
      case requirements_count nlp_result of
        Inl e \<Rightarrow> Inl e
      | Inr count_value \<Rightarrow>
         (case to_number count_value of
            Inl e \<Rightarrow> Inl e
          | Inr requirements_count' \<Rightarrow>
            (let total_data_points = py_add extracted_items_count requirements_count' in
             case coverage_of extracted_items_count requirements_count' of
               Inl e \<Rightarrow> Inl e
             | Inr requirements_coverage \<Rightarrow>
             (let quality = quality_of total_data_points requirements_coverage;
                  recommended_actions =
                    (if extracted_items_count < 5
                     then [''Consider manual extraction for items not detected automatically'']
                     else [])
                    @ (if requirements_coverage < 50
                       then [''Review document for additional specifications and requirements'']
                       else [])
                    @ (if quality = ''excellent''
                       then [''Document analysis is comprehensive - consider this a template for similar drawings'']
                       else [])
              in Inr \<lparr>totalDataPoints = total_data_points,
                      requirementsCoverage = requirements_coverage,
                      recommendedActions = recommended_actions,
                      extractionQuality = quality\<rparr>))))"

definition fallback_insights :: insights where
  "fallback_insights = \<lparr>totalDataPoints = NInt 0, requirementsCoverage = 0,
     recommendedActions = [''Analysis incomplete - review extraction results''],
     extractionQuality = ''poor''\<rparr>"

text \<open>\<^verbatim>\<open>_generate_combined_insights\<close>: the body, and the fixed answer of its
  \<^verbatim>\<open>except Exception\<close>.\<close>

definition generate_combined_insights :: "smart_result \<Rightarrow> nlp_result \<Rightarrow> insights" where
  "generate_combined_insights smart_result nlp_result =
     (case insights_body smart_result nlp_result of
        Inl e \<Rightarrow> fallback_insights
      | Inr r \<Rightarrow> r)"

section \<open>Strings\<close>

text \<open>\<^verbatim>\<open>str(n)\<close> for an int, as an f-string renders it.\<close>

definition digit_char :: "int \<Rightarrow> char" where
  "digit_char d = char_of (48 + d)"

text \<open>The decimal digits of an int that is not negative.\<close>

function str_digits :: "int \<Rightarrow> string" where
  "str_digits n = (if n < 10 then [digit_char n] else str_digits (n div 10) @ [digit_char (n mod 10)])"
  by pat_completeness auto
termination
  by (relation "measure (\<lambda>n. nat n)") auto

declare str_digits.simps [simp del]

definition str_int :: "int \<Rightarrow> string" where
  "str_int i = (if i < 0 then CHR ''-'' # str_digits (- i) else str_digits i)"

definition newline :: string where
  "newline = [CHR 0x0A]"

text \<open>\<^verbatim>\<open>sep.join(xs)\<close>.\<close>

fun py_join :: "string \<Rightarrow> string list \<Rightarrow> string" where
  "py_join sep [] = []"
| "py_join sep [x] = x"
| "py_join sep (x # y # ys) = x @ sep @ py_join sep (y # ys)"

text \<open>\<^verbatim>\<open>s.find(c)\<close> and \<^verbatim>\<open>s.rfind(c)\<close> for an ASCII character (\<open>-1\<close> when it does not
  occur), and the slice \<^verbatim>\<open>s[a:b]\<close> for indices that are not negative. The indices count
  bytes where Python counts characters; the program uses them only to cut the text from
  one ASCII character to another, and that text is the same.\<close>

definition py_find :: "string \<Rightarrow> char \<Rightarrow> int" where
  "py_find s c = (if c \<in> set s then int (length (takeWhile (\<lambda>x. x \<noteq> c) s)) else - 1)"

definition py_rfind :: "string \<Rightarrow> char \<Rightarrow> int" where
  "py_rfind s c = (if c \<in> set s
     then int (length s) - 1 - int (length (takeWhile (\<lambda>x. x \<noteq> c) (rev s))) else - 1)"

definition py_slice :: "string \<Rightarrow> int \<Rightarrow> int \<Rightarrow> string" where
  "py_slice s a b = take (nat (b - a)) (drop (nat a) s)"

text \<open>\<^verbatim>\<open>os.path.join(a, b)\<close> for a relative \<open>b\<close>.\<close>

definition path_join :: "string \<Rightarrow> string \<Rightarrow> string" where
  "path_join a b = (if a = [] then b else if last a = CHR ''/'' then a @ b else a @ ''/'' @ b)"

text \<open>\<^verbatim>\<open>d.update(new)\<close> on a dict.\<close>

definition dict_update :: "pydict \<Rightarrow> pydict \<Rightarrow> pydict" where
  "dict_update d new = new @ filter (\<lambda>kv. fst kv \<notin> set (map fst new)) d"

text \<open>\<^verbatim>\<open>len(x)\<close> on any value.\<close>

definition py_len :: "json \<Rightarrow> py_error + nat" where
  "py_len v = (case v of JArr xs \<Rightarrow> Inr (length xs) | JStr s \<Rightarrow> Inr (str_len s)
     | JObj d \<Rightarrow> Inr (length d) | _ \<Rightarrow> Inl TypeError)"

section \<open>The extraction service\<close>

text \<open>
  What the service cannot compute by itself is an input of the model: the OCR engine,
  the file system, the hosted model's replies, \<^verbatim>\<open>json.loads\<close>, the clock, the string
  methods of the runtime, and the fixed texts of the prompts. Every call to the outside
  is recorded as an event, in order.
\<close>

record llm_request =
  req_model :: string
  req_max_tokens :: nat
  req_system :: string
  req_text :: string
  req_image :: "string option"

datatype event = OcrRun string | ImageRead string | LlmCall llm_request

record service_env =
  anthropic_api_key :: "string option"
  tesseract :: "string \<Rightarrow> string option"
  file_base64 :: "string \<Rightarrow> string option"
  claude :: "llm_request \<Rightarrow> string option"
  json_loads :: "string \<Rightarrow> json option"
  elapsed :: rat
  str_lower :: "string \<Rightarrow> string"
  str_strip :: "string \<Rightarrow> string"
  system_prompt_head :: string
  system_prompt_tail :: string
  user_prompt :: "pydict \<Rightarrow> string"
  nlp_prompt :: string

text \<open>
  \<^verbatim>\<open>tesseract\<close> is \<^verbatim>\<open>pytesseract.image_to_string\<close> on the opened image, \<open>None\<close> when
  opening or recognition raises; \<^verbatim>\<open>file_base64\<close> is the file's content in base64, \<open>None\<close>
  when \<^verbatim>\<open>open\<close> raises; \<^verbatim>\<open>claude\<close> is the text of the first block of the reply, \<open>None\<close>
  when the call raises; \<^verbatim>\<open>json_loads\<close> is \<open>None\<close> on text that is not JSON;
  \<^verbatim>\<open>elapsed\<close> is \<^verbatim>\<open>time.time() - start_time\<close> at the end of the run, a float;
  \<^verbatim>\<open>str_lower\<close> and \<^verbatim>\<open>str_strip\<close> are \<^verbatim>\<open>str.lower\<close> and \<^verbatim>\<open>str.strip\<close>;
  \<^verbatim>\<open>user_prompt\<close> is \<^verbatim>\<open>_build_user_extraction_prompt\<close>, a fixed template filled from
  the drawing metadata.
\<close>

record comprehensive_result =
  smartExtraction :: smart_result
  enhancedNLP :: nlp_result
  combinedInsights :: insights
  totalTime :: rat
  ocrCharacters :: nat

text \<open>What \<^verbatim>\<open>comprehensive_extraction\<close> returns: the full result, or the dict of its
  \<^verbatim>\<open>except\<close> branch, which has no \<^verbatim>\<open>smartExtraction\<close> entry.\<close>

datatype extraction_result = Comprehensive comprehensive_result | ExtractionError py_error rat

definition service_init :: "service_env \<Rightarrow> py_error + unit" where
  "service_init env = (case anthropic_api_key env of
       None \<Rightarrow> Inl ValueError
     | Some k \<Rightarrow> if k = [] then Inl ValueError else Inr ())"

definition perform_ocr :: "service_env \<Rightarrow> string \<Rightarrow> string" where
  "perform_ocr env image_path = (case tesseract env image_path of
       None \<Rightarrow> []
     | Some text \<Rightarrow> str_strip env text)"

definition build_smart_extraction_prompt :: "service_env \<Rightarrow> division list \<Rightarrow> string" where
  "build_smart_extraction_prompt env available_divisions =
     system_prompt_head env
     @ py_join newline (map (\<lambda>d. ''- '' @ div_code d @ '': '' @ div_name d) (take 20 available_divisions))
     @ system_prompt_tail env"

definition failed_smart :: "py_error \<Rightarrow> smart_result" where
  "failed_smart e = \<lparr>sm_success = False, sm_error = Some e, extractedItems = [],
     sm_summary = JObj [(''totalItemsFound'', JInt 0), (''divisionsFound'', JInt 0)]\<rparr>"

text \<open>One round of the loop of \<^verbatim>\<open>_parse_smart_extraction_response\<close>.\<close>

definition process_item :: "(string \<Rightarrow> string) \<Rightarrow> division list \<Rightarrow> json \<Rightarrow> py_error + item" where
  "process_item lower available_divisions it =
     (case it of
        JObj entries \<Rightarrow>
          (case find_matching_division lower (dict_get entries ''csiDivision'' (JObj [])) available_divisions of
             Inl e \<Rightarrow> Inl e
           | Inr d \<Rightarrow>
              (case dict_get entries ''location'' (JObj []) of
                 JObj l \<Rightarrow>
                   Inr \<lparr>itemName = dict_get entries ''itemName'' (JStr ''Unnamed Item''),
                        category = dict_get entries ''category'' (JStr ''material''),
                        csiDivision = d,
                        procurementData = dict_get entries ''procurementData'' (JObj []),
                        location = l,
                        confidence = dict_get l ''confidence'' (JFloat (round_double (4 / 5)))\<rparr>
               | _ \<Rightarrow> Inl AttributeError))
      | _ \<Rightarrow> Inl AttributeError)"

fun process_items :: "(string \<Rightarrow> string) \<Rightarrow> division list \<Rightarrow> json list \<Rightarrow> py_error + item list" where
  "process_items lower available_divisions [] = Inr []"
| "process_items lower available_divisions (it # its) =
     (case process_item lower available_divisions it of
        Inl e \<Rightarrow> Inl e
      | Inr p \<Rightarrow>
         (case process_items lower available_divisions its of
            Inl e \<Rightarrow> Inl e
          | Inr ps \<Rightarrow> Inr (p # ps)))"

text \<open>The JSON text of a reply: from the first \<^verbatim>\<open>{\<close> to the last \<^verbatim>\<open>}\<close>.\<close>

definition json_text :: "string \<Rightarrow> py_error + string" where
  "json_text response_text =
     (let start_idx = py_find response_text (CHR 0x7B); end_idx = py_rfind response_text (CHR 0x7D) in
      if start_idx = - 1 \<or> end_idx = - 1 then Inl ValueError
      else Inr (py_slice response_text start_idx (end_idx + 1)))"

definition parse_smart_body :: "service_env \<Rightarrow> string \<Rightarrow> division list \<Rightarrow> py_error + smart_result" where
  "parse_smart_body env response_text available_divisions =
     (case json_text response_text of
        Inl e \<Rightarrow> Inl e
      | Inr json_str \<Rightarrow>
         (case json_loads env json_str of
            None \<Rightarrow> Inl JSONDecodeError
          | Some parsed_response \<Rightarrow>
             (case py_get parsed_response ''extractedItems'' (JArr []) of
                Inl e \<Rightarrow> Inl e
              | Inr raw_items \<Rightarrow>
                 (case py_iter raw_items of
                    Inl e \<Rightarrow> Inl e
                  | Inr its \<Rightarrow>
                     (case process_items (str_lower env) available_divisions its of
                        Inl e \<Rightarrow> Inl e
                      | Inr processed_items \<Rightarrow>
                         (case py_get parsed_response ''summary'' (JObj []) of
                            Inl e \<Rightarrow> Inl e
                          | Inr summary \<Rightarrow>
                             Inr \<lparr>sm_success = True, sm_error = None,
                                  extractedItems = processed_items, sm_summary = summary\<rparr>))))))"

definition parse_smart_extraction_response :: "service_env \<Rightarrow> string \<Rightarrow> division list \<Rightarrow> smart_result" where
  "parse_smart_extraction_response env response_text available_divisions =
     (case parse_smart_body env response_text available_divisions of
        Inl e \<Rightarrow> failed_smart e
      | Inr r \<Rightarrow> r)"

definition empty_nlp_data :: json where
  "empty_nlp_data = JObj [(''requirements'', JArr []), (''compliance'', JArr []),
     (''document_context'', JObj []),
     (''summary'', JObj [(''totalRequirements'', JInt 0), (''criticalRequirements'', JInt 0),
        (''complianceItemsIdentified'', JInt 0), (''recommendedActions'', JArr [])])]"

definition parse_nlp_response :: "service_env \<Rightarrow> string \<Rightarrow> json" where
  "parse_nlp_response env response_text =
     (case json_text response_text of
        Inl e \<Rightarrow> empty_nlp_data
      | Inr json_str \<Rightarrow>
         (case json_loads env json_str of
            None \<Rightarrow> empty_nlp_data
          | Some v \<Rightarrow> v))"

definition smart_request :: "service_env \<Rightarrow> string \<Rightarrow> string \<Rightarrow> division list \<Rightarrow> pydict \<Rightarrow> llm_request" where
  "smart_request env ocr_text image_base64 available_divisions drawing_metadata =
     \<lparr>req_model = ''claude-sonnet-4-20250514'', req_max_tokens = 4000,
      req_system = build_smart_extraction_prompt env available_divisions,
      req_text = user_prompt env drawing_metadata @ newline @ newline @ ''OCR Text: '' @ ocr_text,
      req_image = Some image_base64\<rparr>"

definition nlp_request :: "service_env \<Rightarrow> string \<Rightarrow> llm_request" where
  "nlp_request env ocr_text =
     \<lparr>req_model = ''claude-sonnet-4-20250514'', req_max_tokens = 3000,
      req_system = nlp_prompt env,
      req_text = ''Analyze this construction document text for requirements and compliance:''
                 @ newline @ newline @ ocr_text,
      req_image = None\<rparr>"

text \<open>\<^verbatim>\<open>smart_extraction_analysis\<close> and \<^verbatim>\<open>enhanced_nlp_analysis\<close>: each sends one request
  and returns its result with the event; a call that raises gives the failure dict. The
  second one logs \<^verbatim>\<open>nlp_result.get('summary', {}).get('totalRequirements', 0)\<close> inside its
  \<^verbatim>\<open>try\<close>, so a summary that is not a dict makes it fail too.\<close>

definition smart_extraction_analysis ::
  "service_env \<Rightarrow> string \<Rightarrow> string \<Rightarrow> division list \<Rightarrow> pydict \<Rightarrow> smart_result \<times> event list" where
  "smart_extraction_analysis env ocr_text image_base64 available_divisions drawing_metadata =
     (let request = smart_request env ocr_text image_base64 available_divisions drawing_metadata in
      case claude env request of
        None \<Rightarrow> (failed_smart APIError, [LlmCall request])
      | Some response_text \<Rightarrow>
          (parse_smart_extraction_response env response_text available_divisions, [LlmCall request]))"

definition enhanced_nlp_analysis :: "service_env \<Rightarrow> string \<Rightarrow> nlp_result \<times> event list" where
  "enhanced_nlp_analysis env ocr_text =
     (let request = nlp_request env ocr_text in
      case claude env request of
        None \<Rightarrow> (NlpFailed APIError, [LlmCall request])
      | Some response_text \<Rightarrow>
         (let nlp_result = parse_nlp_response env response_text in
          case py_get nlp_result ''summary'' (JObj []) of
            Inl e \<Rightarrow> (NlpFailed e, [LlmCall request])
          | Inr summary \<Rightarrow>
             (case py_get summary ''totalRequirements'' (JInt 0) of
                Inl e \<Rightarrow> (NlpFailed e, [LlmCall request])
              | Inr logged \<Rightarrow> (NlpOk nlp_result, [LlmCall request]))))"

text \<open>\<^verbatim>\<open>comprehensive_extraction\<close>, with the events of the run in order.\<close>

definition comprehensive_extraction ::
  "service_env \<Rightarrow> string \<Rightarrow> division list \<Rightarrow> pydict \<Rightarrow> extraction_result \<times> event list" where
  "comprehensive_extraction env image_path available_divisions drawing_metadata =
     (let ocr_text = perform_ocr env image_path in
      case file_base64 env image_path of
        None \<Rightarrow> (ExtractionError OSError (elapsed env), [OcrRun image_path, ImageRead image_path])
      | Some image_base64 \<Rightarrow>
         (let (smart_extraction_result, ev1) =
                smart_extraction_analysis env ocr_text image_base64 available_divisions drawing_metadata;
              (enhanced_nlp_result, ev2) = enhanced_nlp_analysis env ocr_text;
              combined_insights = generate_combined_insights smart_extraction_result enhanced_nlp_result
          in (Comprehensive \<lparr>smartExtraction = smart_extraction_result,
                              enhancedNLP = enhanced_nlp_result,
                              combinedInsights = combined_insights,
                              totalTime = py_round2 (elapsed env),
                              ocrCharacters = str_len ocr_text\<rparr>,
              [OcrRun image_path, ImageRead image_path] @ ev1 @ ev2)))"

section \<open>Database rows and the session\<close>

text \<open>
  The ledger row \<^verbatim>\<open>AICreditTransaction\<close> and the result row \<^verbatim>\<open>ExtractedData\<close>, with the
  columns the extraction endpoints write. \<open>credit_tx\<close> serves twice. As a row of the
  table, its amount and balance are the decimals the \<^verbatim>\<open>Numeric(10, 5)\<close> columns hold,
  which SQLAlchemy hands to Python as \<^verbatim>\<open>Decimal\<close>. As an object that the program has just
  built and added to the session, they are the values the program put there, floats in
  \<open>deduct_credits\<close>. Timestamps are left out.
\<close>

record credit_tx =
  tx_user_id :: int
  tx_type :: string
  tx_amount :: rat
  tx_balance :: rat
  tx_description :: string
  tx_operation :: string
  tx_tokensUsed :: int

text \<open>The dict stored in the \<^verbatim>\<open>data\<close> column; \<^verbatim>\<open>nlpContext\<close> is present when the NLP
  analysis succeeded, with its two filtered lists.\<close>

record extraction_data =
  ed_itemName :: json
  ed_category :: json
  ed_location :: pydict
  ed_procurementData :: json
  ed_confidence :: json
  ed_extractionMethod :: string
  ed_aiModel :: string
  ed_nlpContext :: "(json list \<times> json list) option"

text \<open>A piece of an f-string: literal text, or a formatted value.\<close>

datatype frag = Lit string | Val json

record extracted_data =
  row_drawing_id :: int
  row_user_id :: int
  row_division_id :: int
  row_type :: string
  row_source_location :: "frag list"
  row_data :: extraction_data
  row_confidence :: json
  row_extraction_method :: string
  row_ai_model_used :: string
  row_processing_time :: rat

record drawing =
  dr_id :: int
  dr_user_id :: int
  dr_name :: string
  dr_total_pages :: "int option"
  dr_sheet_metadata :: json

record drawing_profile =
  pf_drawing_id :: int
  pf_discipline :: json
  pf_scale :: json
  pf_industry :: json

text \<open>
  The state of the database as one request sees it: the committed tables, and the
  objects added to the SQLAlchemy session and not yet committed. A commit writes the
  pending objects to their tables, a rollback drops them. A query flushes the session
  first, so pending transactions count in a balance. The numeric columns keep five
  decimal places: \<open>numeric_10_5\<close> is the value a column takes for a value written to it,
  the nearest decimal with five places (a tie goes away from zero, as MySQL, the
  schema's target, rounds; the ten digits of the column's precision are not checked).
\<close>

datatype pending_obj = NewTransaction credit_tx | NewRow extracted_data

record database =
  users :: "int list"
  drawings :: "drawing list"
  construction_divisions :: "(division \<times> bool) list"
  drawing_profiles :: "drawing_profile list"
  ledger :: "credit_tx list"
  extracted_rows :: "extracted_data list"
  pending :: "pending_obj list"

fun pending_transactions :: "pending_obj list \<Rightarrow> credit_tx list" where
  "pending_transactions [] = []"
| "pending_transactions (NewTransaction t # os) = t # pending_transactions os"
| "pending_transactions (NewRow r # os) = pending_transactions os"

fun pending_rows :: "pending_obj list \<Rightarrow> extracted_data list" where
  "pending_rows [] = []"
| "pending_rows (NewTransaction t # os) = pending_rows os"
| "pending_rows (NewRow r # os) = r # pending_rows os"

definition session_add :: "pending_obj \<Rightarrow> database \<Rightarrow> database" where
  "session_add obj db = db\<lparr>pending := pending db @ [obj]\<rparr>"

definition numeric_10_5 :: "rat \<Rightarrow> rat" where
  "numeric_10_5 x = sgn x * of_int \<lfloor>\<bar>x\<bar> * 100000 + 1 / 2\<rfloor> / 100000"

definition stored :: "credit_tx \<Rightarrow> credit_tx" where
  "stored t = t\<lparr>tx_amount := numeric_10_5 (tx_amount t), tx_balance := numeric_10_5 (tx_balance t)\<rparr>"

definition session_commit :: "bool \<Rightarrow> database \<Rightarrow> py_error + database" where
  "session_commit ok db =
     (if ok then Inr (db\<lparr>ledger := ledger db @ map stored (pending_transactions (pending db)),
                        extracted_rows := extracted_rows db @ pending_rows (pending db),
                        pending := []\<rparr>)
      else Inl DatabaseError)"

definition session_rollback :: "database \<Rightarrow> database" where
  "session_rollback db = db\<lparr>pending := []\<rparr>"

section \<open>The credit service\<close>

text \<open>
  \<^verbatim>\<open>User.get_credit_balance\<close> is \<^verbatim>\<open>sum(t.amount for t in transactions)\<close>. The arithmetic
  of the credit service depends on which Python object the sum is, and \<open>current_balance\<close>
  is this object: \<^verbatim>\<open>sum\<close> starts from the int 0 and adds the amounts in turn, the amount
  of a row being a \<^verbatim>\<open>Decimal\<close> and the amount of an object still pending in the session
  the float it was given. So a user without transactions has the int 0, a user with rows
  and no pending transaction a \<^verbatim>\<open>Decimal\<close>, and rows together with a pending transaction
  make the sum raise. \<open>get_credit_balance\<close> is the number that the object holds when no
  transaction is pending, as in the responses, which read it after a commit: the sum
  of the amounts.
\<close>

definition get_credit_balance :: "database \<Rightarrow> int \<Rightarrow> rat" where
  "get_credit_balance db user_id =
     sum_list (map tx_amount
       (filter (\<lambda>t. tx_user_id t = user_id) (ledger db @ pending_transactions (pending db))))"

datatype pynum = PyInt int | PyFloat rat | PyDecimal rat

definition pynum_value :: "pynum \<Rightarrow> rat" where
  "pynum_value x = (case x of PyInt i \<Rightarrow> of_int i | PyFloat q \<Rightarrow> q | PyDecimal d \<Rightarrow> d)"

text \<open>
  \<^verbatim>\<open>x + y\<close> and \<^verbatim>\<open>x - y\<close>: exact on ints and on \<^verbatim>\<open>Decimal\<close>s (whose arithmetic keeps 28
  significant digits, more than a sum of column values has), rounded on floats, an int
  being converted to the kind of the other operand. Between a \<^verbatim>\<open>Decimal\<close> and a float
  neither is defined, and Python raises \<^verbatim>\<open>TypeError\<close>.
\<close>

fun py_plus :: "pynum \<Rightarrow> pynum \<Rightarrow> py_error + pynum" where
  "py_plus (PyInt a) (PyInt b) = Inr (PyInt (a + b))"
| "py_plus (PyInt a) (PyFloat y) = Inr (PyFloat (round_double (round_double (of_int a) + y)))"
| "py_plus (PyInt a) (PyDecimal d) = Inr (PyDecimal (of_int a + d))"
| "py_plus (PyFloat x) (PyInt b) = Inr (PyFloat (round_double (x + round_double (of_int b))))"
| "py_plus (PyFloat x) (PyFloat y) = Inr (PyFloat (round_double (x + y)))"
| "py_plus (PyFloat x) (PyDecimal d) = Inl TypeError"
| "py_plus (PyDecimal c) (PyInt b) = Inr (PyDecimal (c + of_int b))"
| "py_plus (PyDecimal c) (PyFloat y) = Inl TypeError"
| "py_plus (PyDecimal c) (PyDecimal d) = Inr (PyDecimal (c + d))"

fun py_minus :: "pynum \<Rightarrow> pynum \<Rightarrow> py_error + pynum" where
  "py_minus (PyInt a) (PyInt b) = Inr (PyInt (a - b))"
| "py_minus (PyInt a) (PyFloat y) = Inr (PyFloat (round_double (round_double (of_int a) - y)))"
| "py_minus (PyInt a) (PyDecimal d) = Inr (PyDecimal (of_int a - d))"
| "py_minus (PyFloat x) (PyInt b) = Inr (PyFloat (round_double (x - round_double (of_int b))))"
| "py_minus (PyFloat x) (PyFloat y) = Inr (PyFloat (round_double (x - y)))"
| "py_minus (PyFloat x) (PyDecimal d) = Inl TypeError"
| "py_minus (PyDecimal c) (PyInt b) = Inr (PyDecimal (c - of_int b))"
| "py_minus (PyDecimal c) (PyFloat y) = Inl TypeError"
| "py_minus (PyDecimal c) (PyDecimal d) = Inr (PyDecimal (c - d))"

text \<open>\<^verbatim>\<open>sum(xs)\<close>, from the value reached so far.\<close>

fun py_sum :: "pynum \<Rightarrow> pynum list \<Rightarrow> py_error + pynum" where
  "py_sum acc [] = Inr acc"
| "py_sum acc (x # xs) = (case py_plus acc x of Inl e \<Rightarrow> Inl e | Inr t \<Rightarrow> py_sum t xs)"

definition current_balance :: "database \<Rightarrow> int \<Rightarrow> py_error + pynum" where
  "current_balance db user_id =
     py_sum (PyInt 0)
       (map (\<lambda>t. PyDecimal (tx_amount t)) (filter (\<lambda>t. tx_user_id t = user_id) (ledger db))
        @ map (\<lambda>t. PyFloat (tx_amount t))
            (filter (\<lambda>t. tx_user_id t = user_id) (pending_transactions (pending db))))"

text \<open>\<^verbatim>\<open>has_sufficient_credits\<close>; \<open>query_ok\<close> is false when a query raises, which the
  method answers with \<^verbatim>\<open>False\<close>, as it does when the sum raises. The comparison
  \<^verbatim>\<open>current_balance >= estimated_cost\<close> is exact for every kind of number.\<close>

definition has_sufficient_credits :: "bool \<Rightarrow> database \<Rightarrow> int \<Rightarrow> rat \<Rightarrow> bool" where
  "has_sufficient_credits query_ok db user_id estimated_cost =
     (if \<not> query_ok then False
      else if user_id \<notin> set (users db) then False
      else (case current_balance db user_id of
              Inl e \<Rightarrow> False
            | Inr balance \<Rightarrow> estimated_cost \<le> pynum_value balance))"

text \<open>Where the database fails during \<^verbatim>\<open>deduct_credits\<close>, if it does.\<close>

datatype db_fault = NoFault | QueryFails | CommitFails

text \<open>
  From \<^verbatim>\<open>current_balance = user.get_credit_balance()\<close> to the transaction object. The
  amount is a float, as the signature says and as both callers pass it, so
  \<^verbatim>\<open>current_balance - amount\<close> raises \<^verbatim>\<open>TypeError\<close> when the balance is a \<^verbatim>\<open>Decimal\<close>.
\<close>

definition usage_transaction ::
  "database \<Rightarrow> int \<Rightarrow> rat \<Rightarrow> string \<Rightarrow> string option \<Rightarrow> int option \<Rightarrow> py_error + credit_tx" where
  "usage_transaction db user_id amount description operation tokens_used =
     (case current_balance db user_id of
        Inl e \<Rightarrow> Inl e
      | Inr balance \<Rightarrow>
         (case py_minus balance (PyFloat amount) of
            Inl e \<Rightarrow> Inl e
          | Inr new_balance \<Rightarrow>
              Inr \<lparr>tx_user_id = user_id, tx_type = ''usage'', tx_amount = - amount,
                   tx_balance = pynum_value new_balance, tx_description = description,
                   tx_operation = (case operation of None \<Rightarrow> ''usage''
                                   | Some name \<Rightarrow> if name = [] then ''usage'' else name),
                   tx_tokensUsed = (case tokens_used of None \<Rightarrow> 0 | Some n \<Rightarrow> n)\<rparr>))"

text \<open>The \<^verbatim>\<open>try\<close> block of \<^verbatim>\<open>deduct_credits\<close>: an exception carries the session as it
  stood when it was raised.\<close>

definition deduct_body ::
  "db_fault \<Rightarrow> database \<Rightarrow> int \<Rightarrow> rat \<Rightarrow> string \<Rightarrow> string option \<Rightarrow> int option
     \<Rightarrow> (py_error \<times> database) + (credit_tx option \<times> database)" where
  "deduct_body fault db user_id amount description operation tokens_used =
     (if fault = QueryFails then Inl (DatabaseError, db)
      else if user_id \<notin> set (users db) then Inr (None, db)
      else
        (case usage_transaction db user_id amount description operation tokens_used of
           Inl e \<Rightarrow> Inl (e, db)
         | Inr transaction \<Rightarrow>
            (let db1 = session_add (NewTransaction transaction) db
             in case session_commit (fault \<noteq> CommitFails) db1 of
                  Inl e \<Rightarrow> Inl (e, db1)
                | Inr db2 \<Rightarrow> Inr (Some transaction, db2))))"

text \<open>\<^verbatim>\<open>deduct_credits\<close>: the transaction or \<^verbatim>\<open>None\<close>, and the database afterwards.\<close>

definition deduct_credits ::
  "db_fault \<Rightarrow> database \<Rightarrow> int \<Rightarrow> rat \<Rightarrow> string \<Rightarrow> string option \<Rightarrow> int option
     \<Rightarrow> credit_tx option \<times> database" where
  "deduct_credits fault db user_id amount description operation tokens_used =
     (case deduct_body fault db user_id amount description operation tokens_used of
        Inl (e, db') \<Rightarrow> (None, session_rollback db')
      | Inr r \<Rightarrow> r)"

section \<open>Saving the extracted items\<close>

text \<open>The two conditions of the \<^verbatim>\<open>nlpContext\<close> list comprehensions. In each, the left
  operand of \<^verbatim>\<open>in\<close> is evaluated first.\<close>

definition requirement_mentions :: "(string \<Rightarrow> string) \<Rightarrow> item \<Rightarrow> json \<Rightarrow> py_error + bool" where
  "requirement_mentions lower it req =
     (case lower_of lower (itemName it) of
        Inl e \<Rightarrow> Inl e
      | Inr name \<Rightarrow>
         (case py_get req ''content'' (JStr []) of
            Inl e \<Rightarrow> Inl e
          | Inr content \<Rightarrow>
             (case lower_of lower content of
                Inl e \<Rightarrow> Inl e
              | Inr text \<Rightarrow> Inr (sublist name text))))"

definition compliance_mentions :: "(string \<Rightarrow> string) \<Rightarrow> item \<Rightarrow> json \<Rightarrow> py_error + bool" where
  "compliance_mentions lower it entry =
     (case py_get entry ''requirement'' (JStr []) of
        Inl e \<Rightarrow> Inl e
      | Inr requirement \<Rightarrow>
         (case lower_of lower requirement of
            Inl e \<Rightarrow> Inl e
          | Inr text \<Rightarrow>
             (case category it of
                JStr c \<Rightarrow> Inr (sublist c text)
              | _ \<Rightarrow> Inl TypeError)))"

fun filter_raising :: "('a \<Rightarrow> py_error + bool) \<Rightarrow> 'a list \<Rightarrow> py_error + 'a list" where
  "filter_raising p [] = Inr []"
| "filter_raising p (x # xs) =
     (case p x of
        Inl e \<Rightarrow> Inl e
      | Inr b \<Rightarrow>
         (case filter_raising p xs of
            Inl e \<Rightarrow> Inl e
          | Inr ys \<Rightarrow> Inr (if b then x # ys else ys)))"

definition comprehension :: "('a \<Rightarrow> json \<Rightarrow> py_error + bool) \<Rightarrow> 'a \<Rightarrow> json \<Rightarrow> py_error + json list" where
  "comprehension cond it source =
     (case py_iter source of
        Inl e \<Rightarrow> Inl e
      | Inr xs \<Rightarrow> filter_raising (cond it) xs)"

definition nlp_context ::
  "(string \<Rightarrow> string) \<Rightarrow> item \<Rightarrow> nlp_result \<Rightarrow> py_error + (json list \<times> json list) option" where
  "nlp_context lower it enhanced_nlp =
     (case enhanced_nlp of
        NlpFailed e \<Rightarrow> Inr None
      | NlpOk nlp_data \<Rightarrow>
         (case py_get nlp_data ''requirements'' (JArr []) of
            Inl e \<Rightarrow> Inl e
          | Inr reqs \<Rightarrow>
             (case comprehension (requirement_mentions lower) it reqs of
                Inl e \<Rightarrow> Inl e
              | Inr requirements \<Rightarrow>
                 (case py_get nlp_data ''compliance'' (JArr []) of
                    Inl e \<Rightarrow> Inl e
                  | Inr comps \<Rightarrow>
                     (case comprehension (compliance_mentions lower) it comps of
                        Inl e \<Rightarrow> Inl e
                      | Inr compliance \<Rightarrow> Inr (Some (requirements, compliance)))))))"

definition extraction_data_of :: "item \<Rightarrow> (json list \<times> json list) option \<Rightarrow> extraction_data" where
  "extraction_data_of it ctx =
     \<lparr>ed_itemName = itemName it, ed_category = category it, ed_location = location it,
      ed_procurementData = procurementData it, ed_confidence = confidence it,
      ed_extractionMethod = ''comprehensive'', ed_aiModel = ''claude-sonnet-4-20250514'',
      ed_nlpContext = ctx\<rparr>"

definition new_row :: "int \<Rightarrow> int \<Rightarrow> frag list \<Rightarrow> rat \<Rightarrow> item \<Rightarrow> (json list \<times> json list) option \<Rightarrow> extracted_data" where
  "new_row drawing_id user_id source processing_time it ctx =
     \<lparr>row_drawing_id = drawing_id, row_user_id = user_id,
      row_division_id = div_id (csiDivision it), row_type = ''comprehensive_extraction'',
      row_source_location = source, row_data = extraction_data_of it ctx,
      row_confidence = confidence it, row_extraction_method = ''comprehensive'',
      row_ai_model_used = ''claude-sonnet-4-20250514'', row_processing_time = processing_time\<rparr>"

text \<open>The body of the \<^verbatim>\<open>try\<close> for one item in the single-page endpoint: the source
  location reads the coordinates of the item.\<close>

definition single_row ::
  "(string \<Rightarrow> string) \<Rightarrow> int \<Rightarrow> int \<Rightarrow> int \<Rightarrow> rat \<Rightarrow> nlp_result \<Rightarrow> item \<Rightarrow> py_error + extracted_data" where
  "single_row lower drawing_id user_id page processing_time enhanced_nlp it =
     (case nlp_context lower it enhanced_nlp of
        Inl e \<Rightarrow> Inl e
      | Inr ctx \<Rightarrow>
         (case py_get (dict_get (location it) ''coordinates'' (JObj [])) ''x'' (JInt 0) of
            Inl e \<Rightarrow> Inl e
          | Inr x \<Rightarrow>
             (case py_get (dict_get (location it) ''coordinates'' (JObj [])) ''y'' (JInt 0) of
                Inl e \<Rightarrow> Inl e
              | Inr y \<Rightarrow>
                 Inr (new_row drawing_id user_id
                        [Lit ''Page '', Val (JInt page), Lit '' ('', Val x, Lit '','', Val y, Lit '')'']
                        processing_time it ctx))))"

text \<open>The same for \<^verbatim>\<open>_save_extraction_results\<close>, whose source location is the page.\<close>

definition bulk_row ::
  "(string \<Rightarrow> string) \<Rightarrow> int \<Rightarrow> int \<Rightarrow> int \<Rightarrow> rat \<Rightarrow> nlp_result \<Rightarrow> item \<Rightarrow> py_error + extracted_data" where
  "bulk_row lower drawing_id user_id page processing_time enhanced_nlp it =
     (case nlp_context lower it enhanced_nlp of
        Inl e \<Rightarrow> Inl e
      | Inr ctx \<Rightarrow>
          Inr (new_row drawing_id user_id [Lit ''Page '', Val (JInt page)] processing_time it ctx))"

text \<open>The loop over the items: an item whose body raises is logged and skipped, the
  others are added to the session and to \<^verbatim>\<open>saved_items\<close>.\<close>

fun save_items ::
  "(item \<Rightarrow> py_error + extracted_data) \<Rightarrow> item list \<Rightarrow> database \<Rightarrow> extracted_data list
     \<Rightarrow> database \<times> extracted_data list" where
  "save_items mk [] db saved_items = (db, saved_items)"
| "save_items mk (it # its) db saved_items =
     (case mk it of
        Inl e \<Rightarrow> save_items mk its db saved_items
      | Inr extracted \<Rightarrow>
          save_items mk its (session_add (NewRow extracted) db) (saved_items @ [extracted]))"

section \<open>The extraction endpoints\<close>

text \<open>
  What a request depends on besides the database: the logged-in user, the upload folder
  and which files exist in it, the service's environment, and whether the database
  fails at one of the points where the handlers can meet a failure. The page number of
  the request body is taken as an int.
\<close>

record request_env =
  current_user_id :: int
  upload_folder :: string
  path_exists :: "string \<Rightarrow> bool"
  service :: service_env
  balance_query_ok :: bool
  deduct_fault :: "int \<Rightarrow> db_fault"
  commit_ok :: bool

record single_ok =
  so_result :: comprehensive_result
  so_savedItemsCount :: nat
  so_cost :: rat
  so_tokensUsed :: int
  so_creditBalance :: rat

record page_summary =
  ps_page :: int
  ps_extractedItems :: nat
  ps_requirements :: nat
  ps_cost :: rat
  ps_tokensUsed :: int

record bulk_ok =
  bo_totalPages :: int
  bo_processedPages :: nat
  bo_totalItemsExtracted :: nat
  bo_pageResults :: "page_summary list"
  bo_totalCost :: rat
  bo_totalTokensUsed :: int
  bo_creditBalance :: rat

text \<open>The JSON bodies of the responses: an error text; the failed extraction with its
  details; the two refusals for lack of credits, with the estimated cost (and the page
  count); the two successes.\<close>

datatype body = Error string | ExtractionFailed "py_error option"
  | Insufficient string rat | InsufficientBulk string rat int
  | SingleOk single_ok | BulkOk bulk_ok

record response =
  resp_status :: nat
  resp_body :: body

definition page_image_path :: "request_env \<Rightarrow> int \<Rightarrow> string" where
  "page_image_path env page =
     path_join (path_join (upload_folder env) ''pages'') (''page.'' @ str_int page @ ''.png'')"

definition divisions_data :: "database \<Rightarrow> division list" where
  "divisions_data db = map fst (filter snd (construction_divisions db))"

definition find_drawing :: "database \<Rightarrow> int \<Rightarrow> int \<Rightarrow> drawing option" where
  "find_drawing db drawing_id user_id =
     find (\<lambda>d. dr_id d = drawing_id \<and> dr_user_id d = user_id) (drawings db)"

definition find_profile :: "database \<Rightarrow> int \<Rightarrow> drawing_profile option" where
  "find_profile db drawing_id = find (\<lambda>p. pf_drawing_id p = drawing_id) (drawing_profiles db)"

text \<open>\<^verbatim>\<open>tokens_used = max(500, int(processing_time * 200))\<close> and
  \<^verbatim>\<open>tokens_used * 0.0001\<close>, a product of floats: for 501 tokens it is
  \<^verbatim>\<open>0.050100000000000006\<close>.\<close>

definition tokens_used_of :: "rat \<Rightarrow> int" where
  "tokens_used_of processing_time = max 500 (py_int (py_fmul processing_time 200))"

definition credit_cost_of :: "int \<Rightarrow> rat" where
  "credit_cost_of tokens_used = round_double (round_double (of_int tokens_used) * round_double (1 / 10000))"

subsection \<open>Drawing metadata of the single-page endpoint\<close>

definition base_metadata :: "drawing \<Rightarrow> drawing_profile option \<Rightarrow> int \<Rightarrow> pydict" where
  "base_metadata drawing profile page =
     [(''sheetNumber'', JStr (''Sheet '' @ str_int page)),
      (''sheetName'', JStr (dr_name drawing)),
      (''discipline'', case profile of None \<Rightarrow> JNull | Some p \<Rightarrow> pf_discipline p),
      (''scale'', case profile of None \<Rightarrow> JNull | Some p \<Rightarrow> pf_scale p),
      (''industry'', case profile of None \<Rightarrow> JNull | Some p \<Rightarrow> pf_industry p)]"

text \<open>The generator \<^verbatim>\<open>next((sheet for sheet in sheet_meta if sheet.get('pageNumber') ==
  page), None)\<close>.\<close>

fun first_sheet :: "int \<Rightarrow> json list \<Rightarrow> py_error + json option" where
  "first_sheet page [] = Inr None"
| "first_sheet page (sheet # sheets) =
     (case py_get sheet ''pageNumber'' JNull of
        Inl e \<Rightarrow> Inl e
      | Inr n \<Rightarrow> if int_eq page n then Inr (Some sheet) else first_sheet page sheets)"

text \<open>The inner \<^verbatim>\<open>try\<close>: the entries to overwrite. \<^verbatim>\<open>json.loads\<close> wants text, and raises
  \<^verbatim>\<open>TypeError\<close> on any other value.\<close>

definition sheet_overrides :: "(string \<Rightarrow> json option) \<Rightarrow> drawing \<Rightarrow> int \<Rightarrow> py_error + pydict" where
  "sheet_overrides loads drawing page =
     (case (case dr_sheet_metadata drawing of
              JArr xs \<Rightarrow> Inr (JArr xs)
            | JStr t \<Rightarrow> (case loads t of None \<Rightarrow> Inl JSONDecodeError | Some v \<Rightarrow> Inr v)
            | _ \<Rightarrow> Inl TypeError) of
        Inl e \<Rightarrow> Inl e
      | Inr sheet_meta \<Rightarrow>
         (case py_iter sheet_meta of
            Inl e \<Rightarrow> Inl e
          | Inr sheets \<Rightarrow>
             (case first_sheet page sheets of
                Inl e \<Rightarrow> Inl e
              | Inr None \<Rightarrow> Inr []
              | Inr (Some page_meta) \<Rightarrow>
                 (case page_meta of
                    JObj pm \<Rightarrow>
                      if pm = [] then Inr []
                      else Inr [(''sheetNumber'', dict_get pm ''sheetNumber'' (JStr (''Sheet '' @ str_int page))),
                                (''sheetName'', dict_get pm ''sheetTitle'' (JStr (dr_name drawing))),
                                (''scale'', dict_get pm ''scale'' JNull),
                                (''discipline'', dict_get pm ''discipline'' JNull)]
                  | _ \<Rightarrow> Inl AttributeError))))"

text \<open>The inner \<^verbatim>\<open>except\<close> passes over \<^verbatim>\<open>JSONDecodeError\<close> and \<^verbatim>\<open>AttributeError\<close>; any
  other exception leaves the handler's \<^verbatim>\<open>try\<close>.\<close>

definition prepare_metadata ::
  "(string \<Rightarrow> json option) \<Rightarrow> drawing \<Rightarrow> drawing_profile option \<Rightarrow> int \<Rightarrow> py_error + pydict" where
  "prepare_metadata loads drawing profile page =
     (let drawing_metadata = base_metadata drawing profile page in
      if truthy (dr_sheet_metadata drawing) then
        (case sheet_overrides loads drawing page of
           Inl e \<Rightarrow> if e = JSONDecodeError \<or> e = AttributeError then Inr drawing_metadata else Inl e
         | Inr new \<Rightarrow> Inr (dict_update drawing_metadata new))
      else Inr drawing_metadata)"

subsection \<open>The single-page endpoint\<close>

text \<open>From \<^verbatim>\<open># Calculate and deduct credits\<close> to the response. An exception carries the
  database and the events so far to the handler's \<^verbatim>\<open>except\<close>.\<close>

definition charge_and_save ::
  "request_env \<Rightarrow> database \<Rightarrow> int \<Rightarrow> int \<Rightarrow> comprehensive_result \<Rightarrow> event list
     \<Rightarrow> (py_error \<times> database \<times> event list) + (response \<times> database \<times> event list)" where
  "charge_and_save env db drawing_id page r events =
     (let processing_time = totalTime r;
          tokens_used = tokens_used_of processing_time;
          credit_cost = credit_cost_of tokens_used;
          (transaction, db1) =
             deduct_credits (deduct_fault env page) db (current_user_id env) credit_cost
               (''Comprehensive extraction (OCR+AI+NLP) - '' @ str_int tokens_used @ '' tokens'')
               (Some ''comprehensive_extraction'') (Some tokens_used)
      in case transaction of
           None \<Rightarrow> Inr (\<lparr>resp_status = 500, resp_body = Error ''Credit deduction failed''\<rparr>, db1, events)
         | Some t \<Rightarrow>
            (let (db2, saved_items) =
                   save_items (single_row (str_lower (service env)) drawing_id (current_user_id env) page
                                 processing_time (enhancedNLP r))
                     (extractedItems (smartExtraction r)) db1 []
             in case session_commit (commit_ok env) db2 of
                  Inl e \<Rightarrow> Inl (e, db2, events)
                | Inr db3 \<Rightarrow>
                    Inr (\<lparr>resp_status = 200,
                          resp_body = SingleOk \<lparr>so_result = r, so_savedItemsCount = length saved_items,
                            so_cost = credit_cost, so_tokensUsed = tokens_used,
                            so_creditBalance = get_credit_balance db3 (current_user_id env)\<rparr>\<rparr>,
                         db3, events)))"

definition single_page_body ::
  "request_env \<Rightarrow> database \<Rightarrow> int \<Rightarrow> int
     \<Rightarrow> (py_error \<times> database \<times> event list) + (response \<times> database \<times> event list)" where
  "single_page_body env db drawing_id page =
     (case find_drawing db drawing_id (current_user_id env) of
        None \<Rightarrow>
          Inr (\<lparr>resp_status = 404, resp_body = Error ''Drawing not found or access denied''\<rparr>, db, [])
      | Some drawing \<Rightarrow>
         (case prepare_metadata (json_loads (service env)) drawing (find_profile db drawing_id) page of
            Inl e \<Rightarrow> Inl (e, db, [])
          | Inr drawing_metadata \<Rightarrow>
             if \<not> path_exists env (page_image_path env page)
             then Inr (\<lparr>resp_status = 404, resp_body = Error ''Drawing image not found''\<rparr>, db, [])
             else
               (case service_init (service env) of
                  Inl e \<Rightarrow> Inl (e, db, [])
                | Inr u \<Rightarrow>
                   if \<not> has_sufficient_credits (balance_query_ok env) db (current_user_id env) (1 / 4)
                   then Inr (\<lparr>resp_status = 402,
                              resp_body = Insufficient ''Insufficient AI credits'' (1 / 4)\<rparr>, db, [])
                   else
                     (let (extraction_result, events) =
                            comprehensive_extraction (service env) (page_image_path env page)
                              (divisions_data db) drawing_metadata
                      in case extraction_result of
                           ExtractionError e t \<Rightarrow>
                             Inr (\<lparr>resp_status = 500, resp_body = ExtractionFailed (Some e)\<rparr>, db, events)
                         | Comprehensive r \<Rightarrow>
                             if \<not> sm_success (smartExtraction r)
                             then Inr (\<lparr>resp_status = 500, resp_body = ExtractionFailed None\<rparr>, db, events)
                             else charge_and_save env db drawing_id page r events))))"

text \<open>\<^verbatim>\<open>comprehensive_extract_single_page\<close>: the body, and the handler's \<^verbatim>\<open>except\<close>, which
  rolls the session back and answers 500.\<close>

definition comprehensive_extract_single_page ::
  "request_env \<Rightarrow> database \<Rightarrow> int \<Rightarrow> int \<Rightarrow> response \<times> database \<times> event list" where
  "comprehensive_extract_single_page env db drawing_id page =
     (case single_page_body env db drawing_id page of
        Inl (e, db', events) \<Rightarrow>
          (\<lparr>resp_status = 500, resp_body = Error ''Comprehensive extraction failed''\<rparr>,
           session_rollback db', events)
      | Inr r \<Rightarrow> r)"

subsection \<open>The bulk endpoint\<close>

record loop_state =
  ls_db :: database
  ls_events :: "event list"
  ls_all_results :: "page_summary list"
  ls_total_saved_items :: nat
  ls_total_cost :: rat
  ls_total_tokens :: int

text \<open>
  The handler is a function of the module and calls \<^verbatim>\<open>self._save_extraction_results\<close>.
  No name \<^verbatim>\<open>self\<close> is bound there, neither as a local nor as a global, so evaluating
  it raises \<^verbatim>\<open>NameError\<close>.
\<close>

definition lookup_self :: "py_error + unit" where
  "lookup_self = Inl NameError"

text \<open>\<^verbatim>\<open>_save_extraction_results\<close>, as written after the handler.\<close>

definition save_extraction_results ::
  "(string \<Rightarrow> string) \<Rightarrow> int \<Rightarrow> database \<Rightarrow> comprehensive_result \<Rightarrow> int \<Rightarrow> int
     \<Rightarrow> database \<times> extracted_data list" where
  "save_extraction_results lower user_id db extraction_result drawing_id page =
     save_items (bulk_row lower drawing_id user_id page (totalTime extraction_result)
                   (enhancedNLP extraction_result))
       (extractedItems (smartExtraction extraction_result)) db []"

text \<open>\<^verbatim>\<open>len(page_result.get('enhancedNLP', {}).get('data', {}).get('requirements', []))\<close>.\<close>

definition requirements_len :: "nlp_result \<Rightarrow> py_error + nat" where
  "requirements_len enhanced_nlp =
     (case enhanced_nlp of
        NlpFailed e \<Rightarrow> Inr 0
      | NlpOk nlp_data \<Rightarrow>
         (case py_get nlp_data ''requirements'' (JArr []) of
            Inl e \<Rightarrow> Inl e
          | Inr reqs \<Rightarrow> py_len reqs))"

text \<open>The block under \<^verbatim>\<open>if page_result.get('smartExtraction', {}).get('success', False)\<close>:
  the exception it ends with, if any, and the state it leaves.\<close>

definition bulk_page_success ::
  "request_env \<Rightarrow> int \<Rightarrow> int \<Rightarrow> comprehensive_result \<Rightarrow> loop_state \<Rightarrow> py_error option \<times> loop_state" where
  "bulk_page_success env drawing_id page page_result st =
     (case lookup_self of
        Inl e \<Rightarrow> (Some e, st)
      | Inr u \<Rightarrow>
         (let (db1, page_saved_items) =
                save_extraction_results (str_lower (service env)) (current_user_id env) (ls_db st)
                  page_result drawing_id page;
              processing_time = totalTime page_result;
              tokens_used = tokens_used_of processing_time;
              cost = credit_cost_of tokens_used;
              (transaction, db2) =
                 deduct_credits (deduct_fault env page) db1 (current_user_id env) cost
                   (''Bulk comprehensive extraction - Page '' @ str_int page @ '' - ''
                      @ str_int tokens_used @ '' tokens'')
                   (Some ''bulk_comprehensive_extraction'') None;
              st2 = st\<lparr>ls_db := db2\<rparr>
          in case requirements_len (enhancedNLP page_result) of
               Inl e \<Rightarrow> (Some e, st2)
             | Inr n \<Rightarrow>
                 (None, st2\<lparr>ls_all_results := ls_all_results st2 @
                               [\<lparr>ps_page = page,
                                 ps_extractedItems = length (extractedItems (smartExtraction page_result)),
                                 ps_requirements = n, ps_cost = cost, ps_tokensUsed = tokens_used\<rparr>],
                             ls_total_saved_items := ls_total_saved_items st2 + length page_saved_items,
                             ls_total_cost := round_double (ls_total_cost st2 + cost),
                             ls_total_tokens := ls_total_tokens st2 + tokens_used\<rparr>)))"

text \<open>One round of \<^verbatim>\<open>for page in range(1, total_pages + 1)\<close>; its \<^verbatim>\<open>except\<close> logs the
  exception and goes on with the next page.\<close>

definition bulk_page :: "request_env \<Rightarrow> drawing \<Rightarrow> division list \<Rightarrow> int \<Rightarrow> loop_state \<Rightarrow> loop_state" where
  "bulk_page env drawing divisions page st =
     (let image_path = page_image_path env page in
      if \<not> path_exists env image_path then st
      else
        (let drawing_metadata =
               [(''sheetNumber'', JStr (''Sheet '' @ str_int page)),
                (''sheetName'', JStr (dr_name drawing @ '' - Page '' @ str_int page))];
             (page_result, events) =
               comprehensive_extraction (service env) image_path divisions drawing_metadata;
             st1 = st\<lparr>ls_events := ls_events st @ events\<rparr>
         in case page_result of
              ExtractionError e t \<Rightarrow> st1
            | Comprehensive r \<Rightarrow>
                if sm_success (smartExtraction r)
                then snd (bulk_page_success env (dr_id drawing) page r st1)
                else st1))"

fun bulk_loop :: "request_env \<Rightarrow> drawing \<Rightarrow> division list \<Rightarrow> int list \<Rightarrow> loop_state \<Rightarrow> loop_state" where
  "bulk_loop env drawing divisions [] st = st"
| "bulk_loop env drawing divisions (page # pages) st =
     bulk_loop env drawing divisions pages (bulk_page env drawing divisions page st)"

text \<open>\<^verbatim>\<open>total_pages = drawing.total_pages or 1\<close>.\<close>

definition total_pages_of :: "drawing \<Rightarrow> int" where
  "total_pages_of drawing = (case dr_total_pages drawing of
       None \<Rightarrow> 1
     | Some n \<Rightarrow> if n = 0 then 1 else n)"

definition bulk_body ::
  "request_env \<Rightarrow> database \<Rightarrow> int
     \<Rightarrow> (py_error \<times> database \<times> event list) + (response \<times> database \<times> event list)" where
  "bulk_body env db drawing_id =
     (case find_drawing db drawing_id (current_user_id env) of
        None \<Rightarrow>
          Inr (\<lparr>resp_status = 404, resp_body = Error ''Drawing not found or access denied''\<rparr>, db, [])
      | Some drawing \<Rightarrow>
         (let total_pages = total_pages_of drawing;
              divisions = divisions_data db;
              estimated_cost = of_int total_pages * (1 / 4)
          in if \<not> has_sufficient_credits (balance_query_ok env) db (current_user_id env) estimated_cost
             then Inr (\<lparr>resp_status = 402,
                        resp_body = InsufficientBulk ''Insufficient AI credits for bulk processing''
                                      estimated_cost total_pages\<rparr>, db, [])
             else
               (case service_init (service env) of
                  Inl e \<Rightarrow> Inl (e, db, [])
                | Inr u \<Rightarrow>
                   (let st = bulk_loop env drawing divisions [1..total_pages]
                               \<lparr>ls_db = db, ls_events = [], ls_all_results = [],
                                ls_total_saved_items = 0, ls_total_cost = 0, ls_total_tokens = 0\<rparr>
                    in case session_commit (commit_ok env) (ls_db st) of
                         Inl e \<Rightarrow> Inl (e, ls_db st, ls_events st)
                       | Inr db' \<Rightarrow>
                           Inr (\<lparr>resp_status = 200,
                                 resp_body = BulkOk
                                   \<lparr>bo_totalPages = total_pages,
                                    bo_processedPages = length (ls_all_results st),
                                    bo_totalItemsExtracted = ls_total_saved_items st,
                                    bo_pageResults = ls_all_results st,
                                    bo_totalCost = ls_total_cost st,
                                    bo_totalTokensUsed = ls_total_tokens st,
                                    bo_creditBalance = get_credit_balance db' (current_user_id env)\<rparr>\<rparr>,
                                db', ls_events st)))))"

definition comprehensive_extract_all_pages ::
  "request_env \<Rightarrow> database \<Rightarrow> int \<Rightarrow> response \<times> database \<times> event list" where
  "comprehensive_extract_all_pages env db drawing_id =
     (case bulk_body env db drawing_id of
        Inl (e, db', events) \<Rightarrow>
          (\<lparr>resp_status = 500, resp_body = Error ''Bulk comprehensive extraction failed''\<rparr>,
           session_rollback db', events)
      | Inr r \<Rightarrow> r)"

section \<open>Notions used in the statements\<close>

text \<open>\<^verbatim>\<open>extraction_result.get('smartExtraction', {}).get('success', False)\<close>.\<close>

definition extraction_succeeded :: "extraction_result \<Rightarrow> bool" where
  "extraction_succeeded res = (case res of
       Comprehensive r \<Rightarrow> sm_success (smartExtraction r)
     | ExtractionError e t \<Rightarrow> False)"

text \<open>The single-page handler gets as far as charging: the drawing is found, its
  metadata is prepared, the page image exists, the service starts, the credit check
  passes, and the extraction returns \<open>r\<close> with a successful smart extraction.\<close>

definition reaches_charge ::
  "request_env \<Rightarrow> database \<Rightarrow> int \<Rightarrow> int \<Rightarrow> comprehensive_result \<Rightarrow> event list \<Rightarrow> bool" where
  "reaches_charge env db drawing_id page r events \<longleftrightarrow>
     (\<exists>drawing md.
        find_drawing db drawing_id (current_user_id env) = Some drawing
      \<and> prepare_metadata (json_loads (service env)) drawing (find_profile db drawing_id) page = Inr md
      \<and> path_exists env (page_image_path env page)
      \<and> service_init (service env) = Inr ()
      \<and> has_sufficient_credits (balance_query_ok env) db (current_user_id env) (1 / 4)
      \<and> comprehensive_extraction (service env) (page_image_path env page) (divisions_data db) md
           = (Comprehensive r, events)
      \<and> sm_success (smartExtraction r))"

text \<open>The user has a row in the ledger.\<close>

definition has_ledger_row :: "database \<Rightarrow> int \<Rightarrow> bool" where
  "has_ledger_row db user_id \<longleftrightarrow> filter (\<lambda>t. tx_user_id t = user_id) (ledger db) \<noteq> []"

section \<open>A sample request\<close>

text \<open>
  User 7 owns drawing 1, a one-page plan; two divisions are active; the ledger holds one
  purchase of the user. User 9 has no transaction: the registration gives every user a
  bonus row, so this user came into the table by other means. The OCR engine reads a door mark
  between blanks. The model answers the smart extraction with a sentence around a JSON
  text that lists one item, whose division it names in capitals, and the NLP analysis
  with a JSON text that holds one requirement; \<^verbatim>\<open>json.loads\<close> reads the two JSON texts as
  such. The texts are ASCII, on which \<^verbatim>\<open>str.lower\<close> lowers the letters A to Z and
  \<^verbatim>\<open>str.strip\<close> removes the ASCII whitespace at both ends. The processing time and the
  outcome of the handler's own commit are left open.
\<close>

definition lower_char :: "char \<Rightarrow> char" where
  "lower_char c = (let n = (of_char c :: nat) in
     if 65 \<le> n \<and> n \<le> 90 then char_of (n + 32) else c)"

definition ascii_lower :: "string \<Rightarrow> string" where
  "ascii_lower s = map lower_char s"

definition is_space :: "char \<Rightarrow> bool" where
  "is_space c = (let n = (of_char c :: nat) in (9 \<le> n \<and> n \<le> 13) \<or> (28 \<le> n \<and> n \<le> 32))"

definition ascii_strip :: "string \<Rightarrow> string" where
  "ascii_strip s = rev (dropWhile is_space (rev (dropWhile is_space s)))"

definition sample_smart_json :: string where
  \<open>sample_smart_json = ''{"extractedItems": [{"itemName": "Door A1", "csiDivision": {"name": "OPENINGS"}}]}''\<close>

definition sample_smart_reply :: pydict where
  "sample_smart_reply =
     [(''extractedItems'',
       JArr [JObj [(''itemName'', JStr ''Door A1''),
                   (''csiDivision'', JObj [(''name'', JStr ''OPENINGS'')])]])]"

definition sample_nlp_json :: string where
  \<open>sample_nlp_json = ''{"requirements": [{"content": "Door A1 shall be fire rated"}], "summary": {"totalRequirements": 1}}''\<close>

definition sample_nlp_reply :: pydict where
  "sample_nlp_reply =
     [(''requirements'', JArr [JObj [(''content'', JStr ''Door A1 shall be fire rated'')]]),
      (''summary'', JObj [(''totalRequirements'', JInt 1)])]"

definition sample_service :: "rat \<Rightarrow> service_env" where
  "sample_service seconds =
     \<lparr>anthropic_api_key = Some ''key'',
      tesseract = (\<lambda>p. Some '' DOOR A1 ''),
      file_base64 = (\<lambda>p. Some ''aW1n''),
      claude = (\<lambda>q. if req_image q = None then Some sample_nlp_json
                     else Some (''Here are the items: '' @ sample_smart_json @ '' Done.'')),
      json_loads = (\<lambda>t. if t = sample_smart_json then Some (JObj sample_smart_reply)
                         else if t = sample_nlp_json then Some (JObj sample_nlp_reply) else None),
      elapsed = seconds,
      str_lower = ascii_lower,
      str_strip = ascii_strip,
      system_prompt_head = ''DIVISIONS: '',
      system_prompt_tail = '' END'',
      user_prompt = (\<lambda>m. ''Extract.''),
      nlp_prompt = ''Analyze.''\<rparr>"

definition sample_env :: "bool \<Rightarrow> rat \<Rightarrow> request_env" where
  "sample_env second_commit_ok seconds =
     \<lparr>current_user_id = 7, upload_folder = ''uploads'', path_exists = (\<lambda>p. True),
      service = sample_service seconds, balance_query_ok = True,
      deduct_fault = (\<lambda>p. NoFault), commit_ok = second_commit_ok\<rparr>"

definition sample_purchase :: "rat \<Rightarrow> credit_tx" where
  "sample_purchase credits =
     \<lparr>tx_user_id = 7, tx_type = ''purchase'', tx_amount = credits, tx_balance = credits,
      tx_description = ''Credit purchase'', tx_operation = ''purchase'', tx_tokensUsed = 0\<rparr>"

definition sample_divisions :: "division list" where
  "sample_divisions = [\<lparr>div_id = 3, div_name = ''Concrete'', div_code = ''03 00 00''\<rparr>,
                       \<lparr>div_id = 8, div_name = ''Openings'', div_code = ''08 00 00''\<rparr>]"

definition sample_db :: "rat \<Rightarrow> database" where
  "sample_db credits =
     \<lparr>users = [7, 9],
      drawings = [\<lparr>dr_id = 1, dr_user_id = 7, dr_name = ''Plan'', dr_total_pages = Some 1,
                   dr_sheet_metadata = JNull\<rparr>],
      construction_divisions = map (\<lambda>d. (d, True)) sample_divisions,
      drawing_profiles = [],
      ledger = [sample_purchase credits],
      extracted_rows = [],
      pending = []\<rparr>"

section \<open>Properties of strings\<close>

text \<open>The text \<^verbatim>\<open>B\<close>, E with acute accent, \<^verbatim>\<open>TON\<close> has five characters in six bytes.\<close>

lemma characters_of_accented_text:
  "characters (''B'' @ [CHR 0xC3, CHR 0x89] @ ''TON'')
     = [''B'', [CHR 0xC3, CHR 0x89], ''T'', ''O'', ''N'']
   \<and> str_len (''B'' @ [CHR 0xC3, CHR 0x89] @ ''TON'') = 5"
  by code_simp

section \<open>Properties of the division matcher\<close>

lemma exact_loop_find: "exact_loop csi ds = find (exact_match csi) ds"
  by (induction ds) simp_all

lemma fuzzy_loop_find: "fuzzy_loop lower nm ds = find (fuzzy_match lower nm) ds"
  by (induction ds) simp_all

lemma exact_loop_member: "exact_loop csi ds = Some d \<Longrightarrow> d \<in> set ds"
  by (induction ds) (auto split: if_splits)

lemma fuzzy_loop_member: "fuzzy_loop lower nm ds = Some d \<Longrightarrow> d \<in> set ds"
  by (induction ds) (auto split: if_splits)

lemma name_is_text_lower:
  "name_is_text csi \<Longrightarrow>
   lower_of lower (dict_get csi ''name'' (JStr [])) =
     Inr (lower (case map_of csi ''name'' of Some (JStr s) \<Rightarrow> s | _ \<Rightarrow> []))"
  by (auto simp: name_is_text_def lower_of_def dict_get_def split: option.splits json.splits)

lemma find_matching_division_member:
  assumes "find_matching_division lower c ds = Inr r" and "ds \<noteq> []"
  shows "r \<in> set ds"
proof -
  obtain csi where c: "c = JObj csi"
    using assms(1) by (cases c) (simp_all add: find_matching_division_def)
  show ?thesis
  proof (cases "exact_loop csi ds")
    case (Some d)
    with assms(1) c show ?thesis
      by (auto simp: find_matching_division_def dest: exact_loop_member)
  next
    case None
    then obtain s where s: "lower_of lower (dict_get csi ''name'' (JStr [])) = Inr s"
      using assms(1) c by (auto simp: find_matching_division_def split: sum.splits)
    show ?thesis
    proof (cases "fuzzy_loop lower s ds")
      case (Some d)
      with assms(1) c None s show ?thesis
        by (auto simp: find_matching_division_def dest: fuzzy_loop_member)
    next
      case fnone: None
      with assms c None s show ?thesis
        by (cases ds) (auto simp: find_matching_division_def)
    qed
  qed
qed

lemma exact_match_own_dict: "exact_match [(''id'', JInt (div_id d)), (''name'', JStr (div_name d)), (''code'', JStr (div_code d))] d"
  by (simp add: exact_match_def dict_get_def int_eq_def)

lemma exact_match_own_dict_iff:
  "exact_match [(''id'', JInt (div_id r)), (''name'', JStr (div_name r)), (''code'', JStr (div_code r))] d
     \<longleftrightarrow> div_id d = div_id r \<or> div_code d = div_code r"
  by (simp add: exact_match_def dict_get_def int_eq_def str_eq_def)

lemma exact_loop_own_dict:
  assumes "r \<in> set ds" and "distinct (map div_id ds)" and "distinct (map div_code ds)"
  shows "exact_loop [(''id'', JInt (div_id r)), (''name'', JStr (div_name r)), (''code'', JStr (div_code r))] ds = Some r"
  using assms
proof (induction ds)
  case Nil
  then show ?case by simp
next
  case (Cons d ds)
  show ?case
  proof (cases "d = r")
    case True
    then show ?thesis by (simp add: exact_match_own_dict)
  next
    case False
    with Cons.prems have r: "r \<in> set ds" by simp
    from Cons.prems r have "div_id d \<noteq> div_id r" and "div_code d \<noteq> div_code r"
      by auto
    then have "\<not> exact_match [(''id'', JInt (div_id r)), (''name'', JStr (div_name r)), (''code'', JStr (div_code r))] d"
      by (simp add: exact_match_own_dict_iff)
    with Cons r show ?thesis by simp
  qed
qed

text \<open>
  C5. Matching is idempotent on a list of available divisions, that is, on rows of the
  divisions table, whose ids are pairwise distinct (the primary key) and whose codes are
  pairwise distinct (the unique constraint): when \<open>find_matching_division\<close> returns a
  division, matching that division's own id, code and name against the same list returns
  it again. This holds for every input, for the empty list too, and whatever
  \<^verbatim>\<open>str.lower\<close> does.
\<close>

theorem find_matching_division_idempotent:
  assumes "distinct (map div_id ds)" and "distinct (map div_code ds)"
    and "find_matching_division lower c ds = Inr r"
  shows "find_matching_division lower (division_to_dict r) ds = Inr r"
proof (cases "ds = []")
  case True
  obtain csi where c: "c = JObj csi"
    using assms(3) by (cases c) (simp_all add: find_matching_division_def)
  from assms(3) c True have "r = default_division"
    by (auto simp: find_matching_division_def split: sum.splits)
  with True show ?thesis
    by (simp add: find_matching_division_def division_to_dict_def dict_get_def lower_of_def)
next
  case False
  with assms(3) have "r \<in> set ds"
    by (rule find_matching_division_member)
  with assms(1,2) have "exact_loop [(''id'', JInt (div_id r)), (''name'', JStr (div_name r)),
      (''code'', JStr (div_code r))] ds = Some r"
    by (intro exact_loop_own_dict)
  then show ?thesis
    by (simp add: find_matching_division_def division_to_dict_def)
qed

theorem find_matching_division_idempotent_witness:
  "distinct (map div_id
     [\<lparr>div_id = 3, div_name = ''Concrete'', div_code = ''03 00 00''\<rparr>,
      \<lparr>div_id = 4, div_name = ''Masonry'', div_code = ''04 00 00''\<rparr>])
   \<and> distinct (map div_code
     [\<lparr>div_id = 3, div_name = ''Concrete'', div_code = ''03 00 00''\<rparr>,
      \<lparr>div_id = 4, div_name = ''Masonry'', div_code = ''04 00 00''\<rparr>])
   \<and> find_matching_division ascii_lower (JObj [(''name'', JStr ''MASONRY work'')])
     [\<lparr>div_id = 3, div_name = ''Concrete'', div_code = ''03 00 00''\<rparr>,
      \<lparr>div_id = 4, div_name = ''Masonry'', div_code = ''04 00 00''\<rparr>]
   = Inr \<lparr>div_id = 4, div_name = ''Masonry'', div_code = ''04 00 00''\<rparr>
   \<and> find_matching_division ascii_lower
       (division_to_dict \<lparr>div_id = 4, div_name = ''Masonry'', div_code = ''04 00 00''\<rparr>)
     [\<lparr>div_id = 3, div_name = ''Concrete'', div_code = ''03 00 00''\<rparr>,
      \<lparr>div_id = 4, div_name = ''Masonry'', div_code = ''04 00 00''\<rparr>]
   = Inr \<lparr>div_id = 4, div_name = ''Masonry'', div_code = ''04 00 00''\<rparr>"
proof -
  let ?ds = "[\<lparr>div_id = 3, div_name = ''Concrete'', div_code = ''03 00 00''\<rparr>,
      \<lparr>div_id = 4, div_name = ''Masonry'', div_code = ''04 00 00''\<rparr>]"
  have ids: "distinct (map div_id ?ds)" and codes: "distinct (map div_code ?ds)"
    by simp_all
  have first: "find_matching_division ascii_lower (JObj [(''name'', JStr ''MASONRY work'')]) ?ds
     = Inr \<lparr>div_id = 4, div_name = ''Masonry'', div_code = ''04 00 00''\<rparr>"
    by code_simp
  note again = find_matching_division_idempotent [OF ids codes first]
  show ?thesis
    by (rule conjI [OF ids conjI [OF codes conjI [OF first again]]])
qed

text \<open>
  The two hypotheses on the list are needed. In a list in which two divisions share a
  code, which the table cannot hold, the input with id 2 is matched to the second
  division, and that division's own id, code and name are matched to the first one,
  through the code.
\<close>

lemma shared_code_breaks_idempotence:
  "find_matching_division ascii_lower (JObj [(''id'', JInt 2)])
       [\<lparr>div_id = 1, div_name = ''Concrete'', div_code = ''03 00 00''\<rparr>,
        \<lparr>div_id = 2, div_name = ''Cast-in-place'', div_code = ''03 00 00''\<rparr>]
     = Inr \<lparr>div_id = 2, div_name = ''Cast-in-place'', div_code = ''03 00 00''\<rparr>
   \<and> find_matching_division ascii_lower
       (division_to_dict \<lparr>div_id = 2, div_name = ''Cast-in-place'', div_code = ''03 00 00''\<rparr>)
       [\<lparr>div_id = 1, div_name = ''Concrete'', div_code = ''03 00 00''\<rparr>,
        \<lparr>div_id = 2, div_name = ''Cast-in-place'', div_code = ''03 00 00''\<rparr>]
     = Inr \<lparr>div_id = 1, div_name = ''Concrete'', div_code = ''03 00 00''\<rparr>"
  by code_simp

text \<open>
  C7 (as amended). For a \<^verbatim>\<open>csiDivision\<close> dict whose name is absent or a string, the
  matcher returns a division and never raises: the first division of the list that
  equals the input on id or code; failing that, the first whose lowercased name contains
  the lowercased input name or is contained in it; failing that, the first division of
  the list. The result is an element of a non-empty list, and the fixed default division
  for the empty list. Lowercasing is \<^verbatim>\<open>str.lower\<close>, whatever it does to a string.
\<close>

theorem find_matching_division_fallback:
  assumes "name_is_text csi"
  shows "\<exists>d. find_matching_division lower (JObj csi) ds = Inr d
     \<and> d = (let nm = lower (case map_of csi ''name'' of Some (JStr s) \<Rightarrow> s | _ \<Rightarrow> []) in
            case find (\<lambda>d. int_eq (div_id d) (dict_get csi ''id'' JNull)
                             \<or> str_eq (div_code d) (dict_get csi ''code'' JNull)) ds of
              Some e \<Rightarrow> e
            | None \<Rightarrow>
               (case find (\<lambda>d. sublist nm (lower (div_name d))
                                \<or> sublist (lower (div_name d)) nm) ds of
                  Some f \<Rightarrow> f
                | None \<Rightarrow> (case ds of [] \<Rightarrow> default_division | x # xs \<Rightarrow> x)))
     \<and> (ds \<noteq> [] \<longrightarrow> d \<in> set ds)
     \<and> (ds = [] \<longrightarrow> d = \<lparr>div_id = 1, div_name = ''General'', div_code = ''01 00 00''\<rparr>)"
proof -
  define nm where "nm = lower (case map_of csi ''name'' of Some (JStr s) \<Rightarrow> s | _ \<Rightarrow> [])"
  have nm: "lower_of lower (dict_get csi ''name'' (JStr [])) = Inr nm"
    unfolding nm_def using assms by (rule name_is_text_lower)
  let ?E = "find (exact_match csi) ds"
  let ?F = "find (fuzzy_match lower nm) ds"
  let ?d = "case ?E of Some e \<Rightarrow> e | None \<Rightarrow>
              (case ?F of Some f \<Rightarrow> f | None \<Rightarrow> (case ds of [] \<Rightarrow> default_division | x # xs \<Rightarrow> x))"
  have run: "find_matching_division lower (JObj csi) ds = Inr ?d"
    by (simp add: find_matching_division_def nm exact_loop_find fuzzy_loop_find
        split: option.splits list.splits)
  have mem: "ds \<noteq> [] \<longrightarrow> ?d \<in> set ds"
    using find_matching_division_member [OF run] by blast
  have emp: "ds = [] \<longrightarrow> ?d = \<lparr>div_id = 1, div_name = ''General'', div_code = ''01 00 00''\<rparr>"
    by (simp add: default_division_def)
  have unf: "exact_match csi = (\<lambda>d. int_eq (div_id d) (dict_get csi ''id'' JNull)
                             \<or> str_eq (div_code d) (dict_get csi ''code'' JNull))"
    "fuzzy_match lower nm = (\<lambda>d. sublist nm (lower (div_name d))
                                \<or> sublist (lower (div_name d)) nm)"
    by (auto simp: exact_match_def fuzzy_match_def fun_eq_iff)
  from run mem emp show ?thesis
    unfolding unf Let_def nm_def [symmetric] by blast
qed

text \<open>
  A name with an accented capital finds the division of that name, given what
  \<^verbatim>\<open>str.lower\<close> does to the two names: it maps both to the same text.
\<close>

lemma accented_name_matches:
  assumes "lower (''B'' @ [CHR 0xC3, CHR 0x89] @ ''TON'') = ''b'' @ [CHR 0xC3, CHR 0xA9] @ ''ton''"
    and "lower (''B'' @ [CHR 0xC3, CHR 0xA9] @ ''ton'') = ''b'' @ [CHR 0xC3, CHR 0xA9] @ ''ton''"
    and "lower ''Concrete'' = ''concrete''"
  shows "find_matching_division lower (JObj [(''name'', JStr (''B'' @ [CHR 0xC3, CHR 0x89] @ ''TON''))])
       [\<lparr>div_id = 3, div_name = ''Concrete'', div_code = ''03 00 00''\<rparr>,
        \<lparr>div_id = 4, div_name = ''B'' @ [CHR 0xC3, CHR 0xA9] @ ''ton'', div_code = ''04 00 00''\<rparr>]
     = Inr \<lparr>div_id = 4, div_name = ''B'' @ [CHR 0xC3, CHR 0xA9] @ ''ton'', div_code = ''04 00 00''\<rparr>"
proof -
  have no: "\<not> sublist (''b'' @ [CHR 0xC3, CHR 0xA9] @ ''ton'') ''concrete''"
    "\<not> sublist ''concrete'' (''b'' @ [CHR 0xC3, CHR 0xA9] @ ''ton'')"
    by code_simp+
  show ?thesis
    using no
    by (simp add: find_matching_division_def exact_match_def dict_get_def int_eq_def str_eq_def
        lower_of_def fuzzy_match_def assms del: append.simps)
qed

text \<open>
  C7 as stated fails on a dict whose name is JSON \<^verbatim>\<open>null\<close>: no division matches on id
  or code, and \<^verbatim>\<open>None.lower()\<close> raises \<^verbatim>\<open>AttributeError\<close>.
\<close>

theorem find_matching_division_fallback_counterexample:
  "find_matching_division ascii_lower (JObj [(''id'', JInt 99), (''name'', JNull)])
     [\<lparr>div_id = 3, div_name = ''Concrete'', div_code = ''03 00 00''\<rparr>] = Inl AttributeError"
  by code_simp

text \<open>
  The theorem at work. A name in capitals finds its division through the lowercasing
  only; a code decides before the name does; a name that matches nothing falls back to
  the first division; and the empty list gives the default division.
\<close>

theorem find_matching_division_fallback_witness:
  "name_is_text [(''name'', JStr ''MASONRY work'')]
   \<and> find_matching_division ascii_lower (JObj [(''name'', JStr ''MASONRY work'')])
        [\<lparr>div_id = 3, div_name = ''Concrete'', div_code = ''03 00 00''\<rparr>,
         \<lparr>div_id = 4, div_name = ''Masonry'', div_code = ''04 00 00''\<rparr>]
      = Inr \<lparr>div_id = 4, div_name = ''Masonry'', div_code = ''04 00 00''\<rparr>
   \<and> name_is_text [(''code'', JStr ''03 00 00''), (''name'', JStr ''Masonry'')]
   \<and> find_matching_division ascii_lower (JObj [(''code'', JStr ''03 00 00''), (''name'', JStr ''Masonry'')])
        [\<lparr>div_id = 3, div_name = ''Concrete'', div_code = ''03 00 00''\<rparr>,
         \<lparr>div_id = 4, div_name = ''Masonry'', div_code = ''04 00 00''\<rparr>]
      = Inr \<lparr>div_id = 3, div_name = ''Concrete'', div_code = ''03 00 00''\<rparr>
   \<and> name_is_text [(''name'', JStr ''Glazing'')]
   \<and> find_matching_division ascii_lower (JObj [(''name'', JStr ''Glazing'')])
        [\<lparr>div_id = 3, div_name = ''Concrete'', div_code = ''03 00 00''\<rparr>,
         \<lparr>div_id = 4, div_name = ''Masonry'', div_code = ''04 00 00''\<rparr>]
      = Inr \<lparr>div_id = 3, div_name = ''Concrete'', div_code = ''03 00 00''\<rparr>
   \<and> name_is_text []
   \<and> find_matching_division ascii_lower (JObj []) []
      = Inr \<lparr>div_id = 1, div_name = ''General'', div_code = ''01 00 00''\<rparr>"
proof -
  let ?ds = "[\<lparr>div_id = 3, div_name = ''Concrete'', div_code = ''03 00 00''\<rparr>,
              \<lparr>div_id = 4, div_name = ''Masonry'', div_code = ''04 00 00''\<rparr>]"
  let ?a = "[(''name'', JStr ''MASONRY work'')]"
  let ?b = "[(''code'', JStr ''03 00 00''), (''name'', JStr ''Masonry'')]"
  let ?c = "[(''name'', JStr ''Glazing'')]"
  have a: "name_is_text ?a" and b: "name_is_text ?b" and c: "name_is_text ?c" and e: "name_is_text []"
    by (simp_all add: name_is_text_def)
  have va: "(let nm = ascii_lower (case map_of ?a ''name'' of Some (JStr s) \<Rightarrow> s | _ \<Rightarrow> []) in
            case find (\<lambda>d. int_eq (div_id d) (dict_get ?a ''id'' JNull)
                             \<or> str_eq (div_code d) (dict_get ?a ''code'' JNull)) ?ds of
              Some e \<Rightarrow> e
            | None \<Rightarrow>
               (case find (\<lambda>d. sublist nm (ascii_lower (div_name d))
                                \<or> sublist (ascii_lower (div_name d)) nm) ?ds of
                  Some f \<Rightarrow> f
                | None \<Rightarrow> (case ?ds of [] \<Rightarrow> default_division | x # xs \<Rightarrow> x)))
         = \<lparr>div_id = 4, div_name = ''Masonry'', div_code = ''04 00 00''\<rparr>"
    by code_simp
  have vb: "(let nm = ascii_lower (case map_of ?b ''name'' of Some (JStr s) \<Rightarrow> s | _ \<Rightarrow> []) in
            case find (\<lambda>d. int_eq (div_id d) (dict_get ?b ''id'' JNull)
                             \<or> str_eq (div_code d) (dict_get ?b ''code'' JNull)) ?ds of
              Some e \<Rightarrow> e
            | None \<Rightarrow>
               (case find (\<lambda>d. sublist nm (ascii_lower (div_name d))
                                \<or> sublist (ascii_lower (div_name d)) nm) ?ds of
                  Some f \<Rightarrow> f
                | None \<Rightarrow> (case ?ds of [] \<Rightarrow> default_division | x # xs \<Rightarrow> x)))
         = \<lparr>div_id = 3, div_name = ''Concrete'', div_code = ''03 00 00''\<rparr>"
    by code_simp
  have vc: "(let nm = ascii_lower (case map_of ?c ''name'' of Some (JStr s) \<Rightarrow> s | _ \<Rightarrow> []) in
            case find (\<lambda>d. int_eq (div_id d) (dict_get ?c ''id'' JNull)
                             \<or> str_eq (div_code d) (dict_get ?c ''code'' JNull)) ?ds of
              Some e \<Rightarrow> e
            | None \<Rightarrow>
               (case find (\<lambda>d. sublist nm (ascii_lower (div_name d))
                                \<or> sublist (ascii_lower (div_name d)) nm) ?ds of
                  Some f \<Rightarrow> f
                | None \<Rightarrow> (case ?ds of [] \<Rightarrow> default_division | x # xs \<Rightarrow> x)))
         = \<lparr>div_id = 3, div_name = ''Concrete'', div_code = ''03 00 00''\<rparr>"
    by code_simp
  from find_matching_division_fallback [OF a, of ascii_lower ?ds]
  have ra: "find_matching_division ascii_lower (JObj ?a) ?ds
      = Inr \<lparr>div_id = 4, div_name = ''Masonry'', div_code = ''04 00 00''\<rparr>"
    unfolding va by blast
  from find_matching_division_fallback [OF b, of ascii_lower ?ds]
  have rb: "find_matching_division ascii_lower (JObj ?b) ?ds
      = Inr \<lparr>div_id = 3, div_name = ''Concrete'', div_code = ''03 00 00''\<rparr>"
    unfolding vb by blast
  from find_matching_division_fallback [OF c, of ascii_lower ?ds]
  have rc: "find_matching_division ascii_lower (JObj ?c) ?ds
      = Inr \<lparr>div_id = 3, div_name = ''Concrete'', div_code = ''03 00 00''\<rparr>"
    unfolding vc by blast
  from find_matching_division_fallback [OF e, of ascii_lower "[]"]
  have re: "find_matching_division ascii_lower (JObj []) []
      = Inr \<lparr>div_id = 1, div_name = ''General'', div_code = ''01 00 00''\<rparr>"
    by auto
  show ?thesis
    by (rule conjI [OF a conjI [OF ra conjI [OF b conjI [OF rb conjI [OF c conjI [OF rc conjI [OF e re]]]]]]])
qed

section \<open>Properties of the combined insights\<close>

lemma round_half_even_nonneg: "0 \<le> q \<Longrightarrow> 0 \<le> round_half_even q"
  by (auto simp: round_half_even_def Let_def)

lemma round_double_nonneg: "0 \<le> q \<Longrightarrow> 0 \<le> round_double q"
  by (auto simp: round_double_def Let_def sgn_if
      intro!: mult_nonneg_nonneg round_half_even_nonneg divide_nonneg_nonneg)

lemma py_int_floor: "0 \<le> x \<Longrightarrow> py_int x = \<lfloor>x\<rfloor>"
  by (simp add: py_int_def)

text \<open>
  C8. For a smart-extraction result with \<open>n\<close> items and an NLP result from which the
  count \<open>r\<close> is read, the insights have \<open>totalDataPoints = n + r\<close>; the coverage is
  \<open>min(100, \<lfloor>(n / r) * 100\<rfloor>)\<close> when both are positive and 0 otherwise, the quotient and
  the product being those of Python floats; and the quality follows the four thresholds.
\<close>

theorem combined_insights_scoring:
  assumes "requirements_count nlp = Inr (JInt r)"
    and "n = int (length (extractedItems smart))"
  shows "let res = generate_combined_insights smart nlp;
             cov = (if 0 < n \<and> 0 < r
                    then min 100 \<lfloor>round_double (round_double (of_int n / of_int r) * 100)\<rfloor>
                    else 0)
         in totalDataPoints res = NInt (n + r)
          \<and> requirementsCoverage res = cov
          \<and> extractionQuality res =
              (if 15 \<le> n + r \<and> 70 \<le> cov then ''excellent''
               else if 10 \<le> n + r \<and> 50 \<le> cov then ''good''
               else if 5 \<le> n + r \<and> 30 \<le> cov then ''fair''
               else ''poor'')"
proof -
  define cov where "cov = (if 0 < n \<and> 0 < r
                then min 100 \<lfloor>round_double (round_double (of_int n / of_int r) * 100)\<rfloor> else 0)"
  have c: "coverage_of n (NInt r) = Inr cov"
  proof (cases "0 < n \<and> 0 < r")
    case True
    then have "0 \<le> round_double (round_double (of_int n / of_int r) * 100)"
      by (intro round_double_nonneg mult_nonneg_nonneg divide_nonneg_nonneg) simp_all
    with True show ?thesis
      by (simp add: coverage_of_def num_val_def py_fmul_def py_truediv_def py_int_floor cov_def)
  next
    case False
    then show ?thesis
      by (auto simp: coverage_of_def num_val_def cov_def)
  qed
  have b: "insights_body smart nlp = Inr \<lparr>totalDataPoints = NInt (n + r),
      requirementsCoverage = cov,
      recommendedActions =
        (if n < 5 then [''Consider manual extraction for items not detected automatically''] else [])
        @ (if cov < 50 then [''Review document for additional specifications and requirements''] else [])
        @ (if quality_of (NInt (n + r)) cov = ''excellent''
           then [''Document analysis is comprehensive - consider this a template for similar drawings'']
           else []),
      extractionQuality = quality_of (NInt (n + r)) cov\<rparr>"
    using c by (simp add: insights_body_def assms(1) assms(2)[symmetric] to_number_def py_add_def Let_def)
  have q: "quality_of (NInt (n + r)) cov =
         (if 15 \<le> n + r \<and> 70 \<le> cov then ''excellent''
          else if 10 \<le> n + r \<and> 50 \<le> cov then ''good''
          else if 5 \<le> n + r \<and> 30 \<le> cov then ''fair''
          else ''poor'')"
    by (simp add: quality_of_def num_val_def flip: of_int_add)
  show ?thesis
    unfolding Let_def cov_def [symmetric]
    by (simp add: generate_combined_insights_def b q)
qed

theorem combined_insights_scoring_witness:
  "requirements_count (NlpOk (JObj [(''summary'', JObj [(''totalRequirements'', JInt 50)])])) = Inr (JInt 50)
   \<and> totalDataPoints (generate_combined_insights
        \<lparr>sm_success = True, sm_error = None,
         extractedItems = replicate 29 \<lparr>itemName = JStr ''Door'', category = JStr ''material'',
            csiDivision = default_division, procurementData = JObj [], location = [],
            confidence = JInt 1\<rparr>,
         sm_summary = JObj []\<rparr>
        (NlpOk (JObj [(''summary'', JObj [(''totalRequirements'', JInt 50)])]))) = NInt 79
   \<and> requirementsCoverage (generate_combined_insights
        \<lparr>sm_success = True, sm_error = None,
         extractedItems = replicate 29 \<lparr>itemName = JStr ''Door'', category = JStr ''material'',
            csiDivision = default_division, procurementData = JObj [], location = [],
            confidence = JInt 1\<rparr>,
         sm_summary = JObj []\<rparr>
        (NlpOk (JObj [(''summary'', JObj [(''totalRequirements'', JInt 50)])]))) = 57
   \<and> extractionQuality (generate_combined_insights
        \<lparr>sm_success = True, sm_error = None,
         extractedItems = replicate 29 \<lparr>itemName = JStr ''Door'', category = JStr ''material'',
            csiDivision = default_division, procurementData = JObj [], location = [],
            confidence = JInt 1\<rparr>,
         sm_summary = JObj []\<rparr>
        (NlpOk (JObj [(''summary'', JObj [(''totalRequirements'', JInt 50)])]))) = ''good''"
proof -
  let ?nlp = "NlpOk (JObj [(''summary'', JObj [(''totalRequirements'', JInt 50)])])"
  let ?smart = "\<lparr>sm_success = True, sm_error = None,
         extractedItems = replicate 29 \<lparr>itemName = JStr ''Door'', category = JStr ''material'',
            csiDivision = default_division, procurementData = JObj [], location = [],
            confidence = JInt 1\<rparr>,
         sm_summary = JObj []\<rparr>"
  have r: "requirements_count ?nlp = Inr (JInt 50)"
    by (simp add: requirements_count_def truthy_def py_get_def dict_get_def)
  have n: "(29::int) = int (length (extractedItems ?smart))"
    by simp
  have f: "\<lfloor>round_double (round_double (29 / 50) * 100)\<rfloor> = 57"
    by code_simp
  from combined_insights_scoring [OF r n] r show ?thesis
    by (simp add: f Let_def)
qed

text \<open>
  A count that the model's reply gives as a float so small that the quotient is the
  infinity makes \<^verbatim>\<open>int\<close> raise \<^verbatim>\<open>OverflowError\<close>, and the function answers with its fixed
  fallback.
\<close>

lemma combined_insights_overflow:
  assumes "requirements_count nlp = Inr (JFloat q)" and "0 < q" and "extractedItems smart \<noteq> []"
    and "overflows (round_double (round_double (of_int (int (length (extractedItems smart)))) / q))"
  shows "generate_combined_insights smart nlp = fallback_insights"
  using assms
  by (simp add: generate_combined_insights_def insights_body_def to_number_def coverage_of_def
      py_truediv_def num_val_def Let_def)

section \<open>Properties of the charge\<close>

text \<open>
  A run of 2.514 seconds is reported as the float next to 2.51; 200 times it is just
  below 502, so 501 tokens are charged, and \<^verbatim>\<open>501 * 0.0001\<close> is the float
  \<^verbatim>\<open>0.050100000000000006\<close>, which the column would store as 0.05010. The charge for 500
  tokens is the float next to 0.05.
\<close>

lemma charge_for_2514_milliseconds:
  "py_round2 (2514 / 1000) = 1413004383087493 / 562949953421312
   \<and> tokens_used_of (py_round2 (2514 / 1000)) = 501
   \<and> credit_cost_of 501 = 1805042730650095 / 36028797018963968
   \<and> numeric_10_5 (credit_cost_of 501) = 501 / 10000
   \<and> credit_cost_of 500 = 3602879701896397 / 72057594037927936"
  by code_simp

section \<open>Properties of the credit ledger\<close>

lemma pending_transactions_append:
  "pending_transactions (xs @ ys) = pending_transactions xs @ pending_transactions ys"
  by (induction xs rule: pending_transactions.induct) simp_all

lemma pending_rows_append: "pending_rows (xs @ ys) = pending_rows xs @ pending_rows ys"
  by (induction xs rule: pending_rows.induct) simp_all

lemma rollback_clean: "pending db = [] \<Longrightarrow> session_rollback db = db"
  by (simp add: session_rollback_def)

lemma rollback_add: "session_rollback (session_add x db) = session_rollback db"
  by (simp add: session_rollback_def session_add_def)

lemma round_double_minus: "round_double (- q) = - round_double q"
  by (simp add: round_double_def Let_def)

lemma py_sum_decimals:
  "py_sum (PyDecimal a) (map (\<lambda>t. PyDecimal (f t)) ts) = Inr (PyDecimal (a + sum_list (map f ts)))"
  by (induction ts arbitrary: a) (simp_all add: add.assoc)

lemma py_sum_rows:
  "py_sum (PyInt 0) (map (\<lambda>t. PyDecimal (f t)) ts) =
     Inr (if ts = [] then PyInt 0 else PyDecimal (sum_list (map f ts)))"
  by (cases ts) (simp_all add: py_sum_decimals)

text \<open>In a session without pending transactions the balance is the int 0 for a user
  without rows and a \<^verbatim>\<open>Decimal\<close> otherwise, and its value is the sum of the amounts.\<close>

lemma current_balance_clean:
  assumes "pending_transactions (pending db) = []"
  shows "current_balance db u =
     Inr (if has_ledger_row db u then PyDecimal (get_credit_balance db u) else PyInt 0)"
  using assms by (simp add: current_balance_def py_sum_rows has_ledger_row_def get_credit_balance_def)

lemma current_balance_value:
  assumes "pending_transactions (pending db) = []"
  shows "\<exists>b. current_balance db u = Inr b \<and> pynum_value b = get_credit_balance db u"
  using assms
  by (simp add: current_balance_clean pynum_value_def has_ledger_row_def get_credit_balance_def)

lemma sufficient_user:
  "has_sufficient_credits q db u c \<Longrightarrow> u \<in> set (users db)"
  by (auto simp: has_sufficient_credits_def split: if_splits)

lemma sufficient_has_row:
  assumes "pending_transactions (pending db) = []" and "0 < c"
    and "has_sufficient_credits q db u c"
  shows "has_ledger_row db u"
  using assms
  by (auto simp: has_sufficient_credits_def current_balance_clean pynum_value_def split: if_splits)

lemma unfunded:
  assumes "pending db = []" and "get_credit_balance db u < c"
  shows "\<not> has_sufficient_credits q db u c"
proof -
  from assms(1) have "pending_transactions (pending db) = []" by simp
  from current_balance_value [OF this, of u] assms(2) show ?thesis
    by (auto simp: has_sufficient_credits_def)
qed

text \<open>With a \<^verbatim>\<open>Decimal\<close> balance the subtraction of the float amount raises, and
  \<open>deduct_credits\<close> rolls back and returns \<^verbatim>\<open>None\<close>.\<close>

lemma usage_transaction_decimal:
  assumes "pending_transactions (pending db) = []" and "has_ledger_row db u"
  shows "usage_transaction db u a d op tk = Inl TypeError"
  using assms by (simp add: usage_transaction_def current_balance_clean)

lemma usage_transaction_first:
  assumes "pending_transactions (pending db) = []" and "\<not> has_ledger_row db u"
  shows "usage_transaction db u a d op tk =
     Inr \<lparr>tx_user_id = u, tx_type = ''usage'', tx_amount = - a,
          tx_balance = round_double (- a), tx_description = d,
          tx_operation = (case op of None \<Rightarrow> ''usage'' | Some name \<Rightarrow> if name = [] then ''usage'' else name),
          tx_tokensUsed = (case tk of None \<Rightarrow> 0 | Some n \<Rightarrow> n)\<rparr>"
proof -
  have "round_double (of_int 0) = 0"
    by (simp add: round_double_def)
  with assms show ?thesis
    by (simp add: usage_transaction_def current_balance_clean pynum_value_def)
qed

lemma deduct_credits_cases:
  assumes clean: "pending_transactions (pending db) = []"
  obtains (failed) "deduct_credits fault db u a d op tk = (None, session_rollback db)"
      "fault = QueryFails \<or> (u \<in> set (users db) \<and> (has_ledger_row db u \<or> fault = CommitFails))"
    | (no_user) "deduct_credits fault db u a d op tk = (None, db)" "fault \<noteq> QueryFails" "u \<notin> set (users db)"
    | (ok) t where "fault = NoFault" "u \<in> set (users db)" "\<not> has_ledger_row db u"
      "usage_transaction db u a d op tk = Inr t"
      "deduct_credits fault db u a d op tk =
        (Some t, db\<lparr>ledger := ledger db @ [stored t],
                    extracted_rows := extracted_rows db @ pending_rows (pending db),
                    pending := []\<rparr>)"
proof (cases "fault = QueryFails")
  case True
  then show ?thesis
    by (intro failed) (simp_all add: deduct_credits_def deduct_body_def)
next
  case nq: False
  show ?thesis
  proof (cases "u \<in> set (users db)")
    case False
    with nq show ?thesis
      by (intro no_user) (simp_all add: deduct_credits_def deduct_body_def)
  next
    case user: True
    show ?thesis
    proof (cases "has_ledger_row db u")
      case True
      with nq user clean show ?thesis
        by (intro failed) (simp_all add: deduct_credits_def deduct_body_def usage_transaction_decimal)
    next
      case norow: False
      from usage_transaction_first [OF clean norow, of a d op tk]
      obtain t where t: "usage_transaction db u a d op tk = Inr t"
        by blast
      show ?thesis
      proof (cases fault)
        case NoFault
        with user norow t clean show ?thesis
          by (intro ok [of t])
            (simp_all add: deduct_credits_def deduct_body_def session_commit_def session_add_def
              Let_def pending_transactions_append pending_rows_append)
      next
        case QueryFails
        with nq show ?thesis by simp
      next
        case CommitFails
        with user t show ?thesis
          by (intro failed)
            (simp_all add: deduct_credits_def deduct_body_def session_commit_def Let_def rollback_add)
      qed
    qed
  qed
qed

lemma first_balance:
  assumes "pending_transactions (pending db) = []" and "\<not> has_ledger_row db u"
  shows "get_credit_balance db u = 0"
  using assms by (simp add: get_credit_balance_def has_ledger_row_def)



text \<open>
  What \<open>deduct_credits\<close> does for a user by the state of the ledger, when the database
  does not fail. With a row in the ledger it records nothing. Without one it records
  the charge, which leaves a negative balance.
\<close>

lemma deduct_credits_with_row:
  assumes "pending_transactions (pending db) = []" and "has_ledger_row db u"
  shows "\<exists>db'. deduct_credits fault db u a d op tk = (None, db') \<and> ledger db' = ledger db"
  using assms(1)
proof (cases rule: deduct_credits_cases [where db=db and fault=fault and u=u and a=a and d=d
      and op=op and tk=tk])
  case failed
  then show ?thesis by (simp add: session_rollback_def)
next
  case no_user
  then show ?thesis by simp
next
  case (ok t)
  with assms(2) show ?thesis by simp
qed

lemma deduct_credits_without_row:
  assumes "pending_transactions (pending db) = []" and "\<not> has_ledger_row db u"
    and "u \<in> set (users db)" and "0 < a" and "round_double a = a"
  shows "\<exists>t db'. deduct_credits NoFault db u a d op tk = (Some t, db')
     \<and> tx_amount t = - a \<and> tx_balance t = - a
     \<and> get_credit_balance db u = 0 \<and> tx_balance t < 0"
  using assms(1)
proof (cases rule: deduct_credits_cases [where db=db and fault=NoFault and u=u and a=a and d=d
      and op=op and tk=tk])
  case failed
  with assms show ?thesis by simp
next
  case no_user
  with assms show ?thesis by simp
next
  case (ok t)
  from usage_transaction_first [OF assms(1,2), of a d op tk] ok(4)
  have "tx_amount t = - a" "tx_balance t = - a"
    by (auto simp: round_double_minus assms(5))
  with ok(5) assms(4) first_balance [OF assms(1,2)] show ?thesis
    by simp
qed

text \<open>
  C9 fails on the code. User 7 exists and has a balance of 1 credit, held by one row of
  the ledger, so the balance is a \<^verbatim>\<open>Decimal\<close>. Charging the float 0.05, well below the
  balance, raises \<^verbatim>\<open>TypeError\<close> in the subtraction: \<open>deduct_credits\<close> returns \<^verbatim>\<open>None\<close> and
  records nothing. The single-page request of this user, whose extraction succeeds,
  is answered by 500 and leaves the database as it was.
\<close>

theorem deduct_credits_fails_with_ledger_row:
  "7 \<in> set (users (sample_db 1))
   \<and> 0 < credit_cost_of 500
   \<and> current_balance (sample_db 1) 7 = Inr (PyDecimal 1)
   \<and> py_minus (PyDecimal 1) (PyFloat (credit_cost_of 500)) = Inl TypeError
   \<and> deduct_credits NoFault (sample_db 1) 7 (credit_cost_of 500) ''Usage'' None None
       = (None, sample_db 1)
   \<and> extraction_succeeded (fst (comprehensive_extraction (sample_service 2) ''uploads/pages/page.1.png''
        (divisions_data (sample_db 1))
        [(''sheetNumber'', JStr ''Sheet 1''), (''sheetName'', JStr ''Plan''),
         (''discipline'', JNull), (''scale'', JNull), (''industry'', JNull)]))
   \<and> fst (comprehensive_extract_single_page (sample_env True 2) (sample_db 1) 1 1)
       = \<lparr>resp_status = 500, resp_body = Error ''Credit deduction failed''\<rparr>
   \<and> fst (snd (comprehensive_extract_single_page (sample_env True 2) (sample_db 1) 1 1)) = sample_db 1"
proof -
  have a: "7 \<in> set (users (sample_db 1))"
    by (simp add: sample_db_def)
  have b: "0 < credit_cost_of 500"
    by code_simp
  have c: "current_balance (sample_db 1) 7 = Inr (PyDecimal 1)"
    by code_simp
  have d: "py_minus (PyDecimal 1) (PyFloat (credit_cost_of 500)) = Inl TypeError"
    by simp
  have e: "deduct_credits NoFault (sample_db 1) 7 (credit_cost_of 500) ''Usage'' None None
       = (None, sample_db 1)"
    by code_simp
  have f: "extraction_succeeded (fst (comprehensive_extraction (sample_service 2) ''uploads/pages/page.1.png''
        (divisions_data (sample_db 1))
        [(''sheetNumber'', JStr ''Sheet 1''), (''sheetName'', JStr ''Plan''),
         (''discipline'', JNull), (''scale'', JNull), (''industry'', JNull)]))"
    by code_simp
  have g: "fst (comprehensive_extract_single_page (sample_env True 2) (sample_db 1) 1 1)
       = \<lparr>resp_status = 500, resp_body = Error ''Credit deduction failed''\<rparr>"
    by code_simp
  have h: "fst (snd (comprehensive_extract_single_page (sample_env True 2) (sample_db 1) 1 1)) = sample_db 1"
    by code_simp
  show ?thesis
    by (rule conjI [OF a conjI [OF b conjI [OF c conjI [OF d conjI [OF e conjI [OF f conjI [OF g h]]]]]]])
qed

section \<open>Properties of the single-page endpoint\<close>

text \<open>
  A request that passes the credit check has a user with a row in the ledger, since
  the int 0 of an empty sum is below 0.25. So the charge that follows a successful
  extraction always fails, and the handler answers 500 without adding a row.
\<close>

lemma charge_and_save_fails:
  assumes clean: "pending db = []"
    and funded: "has_sufficient_credits q db (current_user_id env) (1 / 4)"
  shows "charge_and_save env db drawing_id page r events =
     Inr (\<lparr>resp_status = 500, resp_body = Error ''Credit deduction failed''\<rparr>, db, events)"
proof -
  from clean have none: "pending_transactions (pending db) = []"
    by simp
  from sufficient_has_row [OF none _ funded] have row: "has_ledger_row db (current_user_id env)"
    by simp
  from deduct_credits_with_row [OF none row] clean
  obtain db' where "deduct_credits (deduct_fault env page) db (current_user_id env)
      (credit_cost_of (tokens_used_of (totalTime r)))
      (''Comprehensive extraction (OCR+AI+NLP) - '' @ str_int (tokens_used_of (totalTime r)) @ '' tokens'')
      (Some ''comprehensive_extraction'') (Some (tokens_used_of (totalTime r))) = (None, db')"
    by blast
  moreover from this clean have "db' = db"
    by (auto simp: deduct_credits_def deduct_body_def rollback_clean usage_transaction_decimal [OF none row]
        split: if_splits)
  ultimately show ?thesis
    by (simp add: charge_and_save_def Let_def)
qed

lemma single_page_reached:
  "reaches_charge env db drawing_id page r events \<Longrightarrow>
   single_page_body env db drawing_id page = charge_and_save env db drawing_id page r events"
  by (auto simp: reaches_charge_def single_page_body_def)

lemma single_page_early:
  assumes "\<nexists>r events. reaches_charge env db drawing_id page r events"
  shows "(\<exists>resp events. single_page_body env db drawing_id page = Inr (resp, db, events)
            \<and> resp_status resp \<noteq> 200)
       \<or> (\<exists>e events. single_page_body env db drawing_id page = Inl (e, db, events))"
  using assms
  by (auto simp: reaches_charge_def single_page_body_def
      split: option.splits sum.splits extraction_result.splits prod.splits)

lemma single_page_run_cases:
  assumes clean: "pending db = []"
  obtains
    (early) resp events where
      "comprehensive_extract_single_page env db drawing_id page = (resp, db, events)"
      "resp_status resp \<noteq> 200" "\<nexists>r ev. reaches_charge env db drawing_id page r ev"
  | (refused) r events where
      "reaches_charge env db drawing_id page r events"
      "comprehensive_extract_single_page env db drawing_id page =
         (\<lparr>resp_status = 500, resp_body = Error ''Credit deduction failed''\<rparr>, db, events)"
proof (cases "\<exists>r ev. reaches_charge env db drawing_id page r ev")
  case False
  from single_page_early [OF False] show ?thesis
  proof (elim disjE exE conjE)
    fix resp events
    assume "single_page_body env db drawing_id page = Inr (resp, db, events)" "resp_status resp \<noteq> 200"
    then show ?thesis
      using False by (intro early [of resp events]) (simp_all add: comprehensive_extract_single_page_def)
  next
    fix e events
    assume "single_page_body env db drawing_id page = Inl (e, db, events)"
    then show ?thesis
      using False clean
      by (intro early [of "\<lparr>resp_status = 500, resp_body = Error ''Comprehensive extraction failed''\<rparr>" events])
        (simp_all add: comprehensive_extract_single_page_def rollback_clean)
  qed
next
  case True
  then obtain r events where reach: "reaches_charge env db drawing_id page r events"
    by blast
  then have funded: "has_sufficient_credits (balance_query_ok env) db (current_user_id env) (1 / 4)"
    by (auto simp: reaches_charge_def)
  have body: "single_page_body env db drawing_id page = charge_and_save env db drawing_id page r events"
    using reach by (rule single_page_reached)
  show ?thesis
    using reach body
    by (intro refused [of r events])
      (simp_all add: comprehensive_extract_single_page_def charge_and_save_fails [OF clean funded])
qed

text \<open>The single-page endpoint leaves the database as it found it and never answers 200.\<close>

lemma single_page_never_persists:
  assumes "pending db = []"
  shows "\<exists>resp events. comprehensive_extract_single_page env db drawing_id page = (resp, db, events)
     \<and> resp_status resp \<noteq> 200"
  using assms
proof (cases rule: single_page_run_cases [where db=db and env=env and drawing_id=drawing_id and page=page])
  case (early resp events)
  then show ?thesis by blast
next
  case (refused r events)
  then show ?thesis by simp
qed

lemma tokens_used_floor: "tokens_used_of pt = max 500 \<lfloor>round_double (pt * 200)\<rfloor>"
proof (cases "0 \<le> round_double (pt * 200)")
  case True
  then show ?thesis by (simp add: tokens_used_of_def py_fmul_def py_int_def)
next
  case False
  then have "\<lceil>round_double (pt * 200)\<rceil> \<le> 0" "\<lfloor>round_double (pt * 200)\<rfloor> \<le> 0"
    by (simp_all add: ceiling_le_iff floor_le_iff)
  with False show ?thesis by (simp add: tokens_used_of_def py_fmul_def py_int_def)
qed

text \<open>
  C3. A single-page request that starts with an empty session adds at most one
  transaction to the ledger, a usage transaction of the requesting user; and it adds
  none when the drawing is missing, the page image is missing, the credits are
  insufficient, or the smart extraction it runs is unsuccessful.
\<close>

theorem single_page_at_most_one_charge:
  assumes run: "comprehensive_extract_single_page env db drawing_id page = (resp, db', events)"
    and clean: "pending db = []"
  shows "(ledger db' = ledger db
          \<or> (\<exists>t. ledger db' = ledger db @ [t] \<and> tx_type t = ''usage''
                  \<and> tx_user_id t = current_user_id env))
     \<and> (find_drawing db drawing_id (current_user_id env) = None \<longrightarrow> ledger db' = ledger db)
     \<and> (\<not> path_exists env (page_image_path env page) \<longrightarrow> ledger db' = ledger db)
     \<and> (\<not> has_sufficient_credits (balance_query_ok env) db (current_user_id env) (1 / 4)
          \<longrightarrow> ledger db' = ledger db)
     \<and> ((\<forall>drawing md.
            find_drawing db drawing_id (current_user_id env) = Some drawing \<longrightarrow>
            prepare_metadata (json_loads (service env)) drawing (find_profile db drawing_id) page = Inr md \<longrightarrow>
            \<not> extraction_succeeded (fst (comprehensive_extraction (service env)
                  (page_image_path env page) (divisions_data db) md)))
          \<longrightarrow> ledger db' = ledger db)"
proof -
  from single_page_never_persists [OF clean, of env drawing_id page] run have "db' = db"
    by auto
  then show ?thesis
    by simp
qed

text \<open>
  The four cases on requests of user 7, who has one credit: a drawing that does not
  exist, a page without image, a balance below 0.25, and a model whose reply cannot be
  read. In each the ledger stays as it was.
\<close>

theorem single_page_at_most_one_charge_witness:
  "pending (sample_db 1) = []
   \<and> find_drawing (sample_db 1) 99 (current_user_id (sample_env True 2)) = None
   \<and> ledger (fst (snd (comprehensive_extract_single_page (sample_env True 2) (sample_db 1) 99 1)))
       = ledger (sample_db 1)
   \<and> \<not> path_exists ((sample_env True 2)\<lparr>path_exists := (\<lambda>p. False)\<rparr>)
          (page_image_path ((sample_env True 2)\<lparr>path_exists := (\<lambda>p. False)\<rparr>) 1)
   \<and> ledger (fst (snd (comprehensive_extract_single_page
        ((sample_env True 2)\<lparr>path_exists := (\<lambda>p. False)\<rparr>) (sample_db 1) 1 1)))
       = ledger (sample_db 1)
   \<and> pending (sample_db (1 / 10)) = []
   \<and> \<not> has_sufficient_credits (balance_query_ok (sample_env True 2)) (sample_db (1 / 10))
          (current_user_id (sample_env True 2)) (1 / 4)
   \<and> ledger (fst (snd (comprehensive_extract_single_page (sample_env True 2) (sample_db (1 / 10)) 1 1)))
       = ledger (sample_db (1 / 10))
   \<and> fst (comprehensive_extract_single_page
        ((sample_env True 2)\<lparr>service := (sample_service 2)\<lparr>json_loads := (\<lambda>t. None)\<rparr>\<rparr>) (sample_db 1) 1 1)
       = \<lparr>resp_status = 500, resp_body = ExtractionFailed None\<rparr>
   \<and> ledger (fst (snd (comprehensive_extract_single_page
        ((sample_env True 2)\<lparr>service := (sample_service 2)\<lparr>json_loads := (\<lambda>t. None)\<rparr>\<rparr>) (sample_db 1) 1 1)))
       = ledger (sample_db 1)"
proof -
  let ?env = "sample_env True 2"
  let ?blind = "(sample_env True 2)\<lparr>path_exists := (\<lambda>p. False)\<rparr>"
  let ?mute = "(sample_env True 2)\<lparr>service := (sample_service 2)\<lparr>json_loads := (\<lambda>t. None)\<rparr>\<rparr>"
  let ?missing = "comprehensive_extract_single_page ?env (sample_db 1) 99 1"
  let ?noimage = "comprehensive_extract_single_page ?blind (sample_db 1) 1 1"
  let ?poor = "comprehensive_extract_single_page ?env (sample_db (1 / 10)) 1 1"
  let ?failed = "comprehensive_extract_single_page ?mute (sample_db 1) 1 1"
  have clean: "pending (sample_db 1) = []" and clean': "pending (sample_db (1 / 10)) = []"
    by (simp_all add: sample_db_def)
  have triple: "x = (fst x, fst (snd x), snd (snd x))" for x :: "response \<times> database \<times> event list"
    by simp
  have a: "find_drawing (sample_db 1) 99 (current_user_id ?env) = None"
    by code_simp
  have b: "\<not> path_exists ?blind (page_image_path ?blind 1)"
    by (simp add: sample_env_def)
  have c: "\<not> has_sufficient_credits (balance_query_ok ?env) (sample_db (1 / 10)) (current_user_id ?env) (1 / 4)"
    by code_simp
  have d: "fst ?failed = \<lparr>resp_status = 500, resp_body = ExtractionFailed None\<rparr>"
    by code_simp
  from single_page_at_most_one_charge [OF triple [of ?missing] clean] a
  have ra: "ledger (fst (snd ?missing)) = ledger (sample_db 1)"
    by blast
  from single_page_at_most_one_charge [OF triple [of ?noimage] clean] b
  have rb: "ledger (fst (snd ?noimage)) = ledger (sample_db 1)"
    by blast
  from single_page_at_most_one_charge [OF triple [of ?poor] clean'] c
  have rc: "ledger (fst (snd ?poor)) = ledger (sample_db (1 / 10))"
    by blast
  from single_page_at_most_one_charge [OF triple [of ?failed] clean]
  have "ledger (fst (snd ?failed)) = ledger (sample_db 1)
      \<or> (\<exists>t. ledger (fst (snd ?failed)) = ledger (sample_db 1) @ [t])"
    by blast
  moreover have "length (ledger (fst (snd ?failed))) = 1"
    by code_simp
  moreover have "length (ledger (sample_db 1)) = 1"
    by (simp add: sample_db_def)
  ultimately have rd: "ledger (fst (snd ?failed)) = ledger (sample_db 1)"
    by auto
  show ?thesis
    by (rule conjI [OF clean conjI [OF a conjI [OF ra conjI [OF b conjI [OF rb conjI [OF clean'
          conjI [OF c conjI [OF rc conjI [OF d rd]]]]]]]]])
qed



text \<open>
  C4 (as amended). A request of a user whose balance is below the estimated cost does
  no extraction, deducts nothing and records no row. The single-page endpoint answers
  402 with \<^verbatim>\<open>Insufficient AI credits\<close> when the drawing is found, its metadata is
  prepared, the page image exists and the service starts (it answers 404 or 500
  otherwise, from the checks that come first); the bulk endpoint answers 402 with
  \<^verbatim>\<open>Insufficient AI credits for bulk processing\<close> when the drawing is found.
\<close>

theorem insufficient_credits_refused:
  assumes clean: "pending db = []"
  shows "(get_credit_balance db (current_user_id env) < 1 / 4 \<longrightarrow>
           (\<exists>resp. comprehensive_extract_single_page env db drawing_id page = (resp, db, [])
              \<and> resp_status resp \<noteq> 200
              \<and> ((\<exists>drawing md. find_drawing db drawing_id (current_user_id env) = Some drawing
                     \<and> prepare_metadata (json_loads (service env)) drawing
                          (find_profile db drawing_id) page = Inr md)
                  \<and> path_exists env (page_image_path env page)
                  \<and> service_init (service env) = Inr ()
                 \<longrightarrow> resp = \<lparr>resp_status = 402,
                              resp_body = Insufficient ''Insufficient AI credits'' (1 / 4)\<rparr>)))
       \<and> (\<forall>drawing. find_drawing db drawing_id (current_user_id env) = Some drawing \<longrightarrow>
            get_credit_balance db (current_user_id env) < of_int (total_pages_of drawing) * (1 / 4) \<longrightarrow>
            comprehensive_extract_all_pages env db drawing_id =
              (\<lparr>resp_status = 402,
                resp_body = InsufficientBulk ''Insufficient AI credits for bulk processing''
                              (of_int (total_pages_of drawing) * (1 / 4)) (total_pages_of drawing)\<rparr>,
               db, []))"
proof (intro conjI impI allI)
  assume "get_credit_balance db (current_user_id env) < 1 / 4"
  with clean have no: "\<not> has_sufficient_credits (balance_query_ok env) db (current_user_id env) (1 / 4)"
    by (rule unfunded)
  then show "\<exists>resp. comprehensive_extract_single_page env db drawing_id page = (resp, db, [])
              \<and> resp_status resp \<noteq> 200
              \<and> ((\<exists>drawing md. find_drawing db drawing_id (current_user_id env) = Some drawing
                     \<and> prepare_metadata (json_loads (service env)) drawing
                          (find_profile db drawing_id) page = Inr md)
                  \<and> path_exists env (page_image_path env page)
                  \<and> service_init (service env) = Inr ()
                 \<longrightarrow> resp = \<lparr>resp_status = 402,
                              resp_body = Insufficient ''Insufficient AI credits'' (1 / 4)\<rparr>)"
    using clean
    by (auto simp: comprehensive_extract_single_page_def single_page_body_def rollback_clean
        split: option.splits sum.splits)
next
  fix drawing
  assume "find_drawing db drawing_id (current_user_id env) = Some drawing"
    and "get_credit_balance db (current_user_id env) < of_int (total_pages_of drawing) * (1 / 4)"
  then show "comprehensive_extract_all_pages env db drawing_id =
              (\<lparr>resp_status = 402,
                resp_body = InsufficientBulk ''Insufficient AI credits for bulk processing''
                              (of_int (total_pages_of drawing) * (1 / 4)) (total_pages_of drawing)\<rparr>,
               db, [])"
    by (simp add: comprehensive_extract_all_pages_def bulk_body_def Let_def unfunded [OF clean])
qed

theorem insufficient_credits_refused_witness:
  "pending (sample_db (1 / 10)) = []
   \<and> get_credit_balance (sample_db (1 / 10)) (current_user_id (sample_env True 2)) < 1 / 4
   \<and> comprehensive_extract_single_page (sample_env True 2) (sample_db (1 / 10)) 1 1
       = (\<lparr>resp_status = 402, resp_body = Insufficient ''Insufficient AI credits'' (1 / 4)\<rparr>,
          sample_db (1 / 10), [])
   \<and> comprehensive_extract_all_pages (sample_env True 2) (sample_db (1 / 10)) 1
       = (\<lparr>resp_status = 402,
           resp_body = InsufficientBulk ''Insufficient AI credits for bulk processing'' (1 / 4) 1\<rparr>,
          sample_db (1 / 10), [])"
proof -
  let ?env = "sample_env True 2"
  let ?db = "sample_db (1 / 10)"
  let ?drawing = "\<lparr>dr_id = 1, dr_user_id = 7, dr_name = ''Plan'', dr_total_pages = Some 1,
                   dr_sheet_metadata = JNull\<rparr>"
  have clean: "pending ?db = []"
    by (simp add: sample_db_def)
  have poor: "get_credit_balance ?db (current_user_id ?env) < 1 / 4"
    by code_simp
  have found: "find_drawing ?db 1 (current_user_id ?env) = Some ?drawing"
    by code_simp
  have md: "prepare_metadata (json_loads (service ?env)) ?drawing (find_profile ?db 1) 1
      = Inr (base_metadata ?drawing None 1)"
    by code_simp
  have readable: "path_exists ?env (page_image_path ?env 1)"
    by (simp add: sample_env_def)
  have key: "service_init (service ?env) = Inr ()"
    by code_simp
  have pages: "total_pages_of ?drawing = 1"
    by (simp add: total_pages_of_def)
  note inst = insufficient_credits_refused [OF clean, of ?env 1 1]
  from inst poor obtain resp where
    run: "comprehensive_extract_single_page ?env ?db 1 1 = (resp, ?db, [])"
    and imp: "(\<exists>drawing md. find_drawing ?db 1 (current_user_id ?env) = Some drawing
                     \<and> prepare_metadata (json_loads (service ?env)) drawing (find_profile ?db 1) 1 = Inr md)
                  \<and> path_exists ?env (page_image_path ?env 1)
                  \<and> service_init (service ?env) = Inr ()
               \<longrightarrow> resp = \<lparr>resp_status = 402, resp_body = Insufficient ''Insufficient AI credits'' (1 / 4)\<rparr>"
    by blast
  from imp found md readable key
  have "resp = \<lparr>resp_status = 402, resp_body = Insufficient ''Insufficient AI credits'' (1 / 4)\<rparr>"
    by blast
  with run have single: "comprehensive_extract_single_page ?env ?db 1 1
       = (\<lparr>resp_status = 402, resp_body = Insufficient ''Insufficient AI credits'' (1 / 4)\<rparr>, ?db, [])"
    by simp
  from poor pages have poor': "get_credit_balance ?db (current_user_id ?env)
      < of_int (total_pages_of ?drawing) * (1 / 4)"
    by simp
  from inst found poor' have "comprehensive_extract_all_pages ?env ?db 1 =
              (\<lparr>resp_status = 402,
                resp_body = InsufficientBulk ''Insufficient AI credits for bulk processing''
                              (of_int (total_pages_of ?drawing) * (1 / 4)) (total_pages_of ?drawing)\<rparr>,
               ?db, [])"
    by blast
  then have bulk: "comprehensive_extract_all_pages ?env ?db 1
       = (\<lparr>resp_status = 402,
           resp_body = InsufficientBulk ''Insufficient AI credits for bulk processing'' (1 / 4) 1\<rparr>,
          ?db, [])"
    by (simp add: pages)
  show ?thesis
    by (rule conjI [OF clean conjI [OF poor conjI [OF single bulk]]])
qed

text \<open>
  C4 as stated fails for a drawing that does not exist: the user has no credits, and the
  single-page endpoint answers 404, not 402.
\<close>

theorem insufficient_credits_refused_counterexample:
  "get_credit_balance ((sample_db 0)\<lparr>drawings := [], ledger := []\<rparr>) (current_user_id (sample_env True 2)) < 1 / 4
   \<and> fst (comprehensive_extract_single_page (sample_env True 2)
            ((sample_db 0)\<lparr>drawings := [], ledger := []\<rparr>) 1 1)
       = \<lparr>resp_status = 404, resp_body = Error ''Drawing not found or access denied''\<rparr>"
  by code_simp

section \<open>Properties of the bulk endpoint\<close>

lemma bulk_page_success_raises:
  "bulk_page_success env drawing_id page r st = (Some NameError, st)"
  by (simp add: bulk_page_success_def lookup_self_def)

lemma bulk_page_frame:
  "bulk_page env drawing divisions page st = st\<lparr>ls_events := ls_events (bulk_page env drawing divisions page st)\<rparr>"
  by (simp add: bulk_page_def Let_def bulk_page_success_raises
      split: prod.splits extraction_result.splits)

lemma bulk_loop_frame:
  "bulk_loop env drawing divisions pages st =
     st\<lparr>ls_events := ls_events (bulk_loop env drawing divisions pages st)\<rparr>"
proof (induction pages arbitrary: st)
  case Nil
  then show ?case by simp
next
  case (Cons page pages)
  have "bulk_loop env drawing divisions (page # pages) st =
      bulk_loop env drawing divisions pages (bulk_page env drawing divisions page st)"
    by simp
  also have "\<dots> = (bulk_page env drawing divisions page st)
      \<lparr>ls_events := ls_events (bulk_loop env drawing divisions pages (bulk_page env drawing divisions page st))\<rparr>"
    by (rule Cons.IH)
  also have "\<dots> = st\<lparr>ls_events := ls_events (bulk_loop env drawing divisions pages (bulk_page env drawing divisions page st))\<rparr>"
    by (subst bulk_page_frame) simp
  finally show ?case by simp
qed

text \<open>The bulk endpoint leaves the database as it found it, whatever the pages hold.\<close>

lemma bulk_never_persists:
  assumes "pending db = []"
  shows "fst (snd (comprehensive_extract_all_pages env db drawing_id)) = db"
proof -
  have frame: "ls_db (bulk_loop env drawing divisions pages
       \<lparr>ls_db = db, ls_events = [], ls_all_results = [], ls_total_saved_items = 0,
        ls_total_cost = 0, ls_total_tokens = 0\<rparr>) = db" for drawing divisions pages
    by (subst bulk_loop_frame) simp
  show ?thesis
    using assms
    by (auto simp: comprehensive_extract_all_pages_def bulk_body_def Let_def frame rollback_clean
        session_commit_def split: option.splits sum.splits)
qed

text \<open>
  C2 fails on the code. On the sample request the extraction of page 1 succeeds with
  one item. The bulk endpoint runs it, with its four calls to the outside, then skips
  the page: it records nothing and answers 200 with no processed page.
\<close>

theorem bulk_skips_successful_page:
  "extraction_succeeded (fst (comprehensive_extraction (sample_service 2) ''uploads/pages/page.1.png''
       (divisions_data (sample_db 1))
       [(''sheetNumber'', JStr ''Sheet 1''), (''sheetName'', JStr ''Plan - Page 1'')]))
   \<and> length (extractedItems (smartExtraction (case fst (comprehensive_extraction (sample_service 2)
        ''uploads/pages/page.1.png'' (divisions_data (sample_db 1))
        [(''sheetNumber'', JStr ''Sheet 1''), (''sheetName'', JStr ''Plan - Page 1'')])
        of Comprehensive r \<Rightarrow> r))) = 1
   \<and> fst (comprehensive_extract_all_pages (sample_env True 2) (sample_db 1) 1)
       = \<lparr>resp_status = 200,
          resp_body = BulkOk \<lparr>bo_totalPages = 1, bo_processedPages = 0, bo_totalItemsExtracted = 0,
            bo_pageResults = [], bo_totalCost = 0, bo_totalTokensUsed = 0, bo_creditBalance = 1\<rparr>\<rparr>
   \<and> fst (snd (comprehensive_extract_all_pages (sample_env True 2) (sample_db 1) 1)) = sample_db 1
   \<and> length (snd (snd (comprehensive_extract_all_pages (sample_env True 2) (sample_db 1) 1))) = 4"
proof -
  have a: "extraction_succeeded (fst (comprehensive_extraction (sample_service 2) ''uploads/pages/page.1.png''
       (divisions_data (sample_db 1))
       [(''sheetNumber'', JStr ''Sheet 1''), (''sheetName'', JStr ''Plan - Page 1'')]))"
    by code_simp
  have b: "length (extractedItems (smartExtraction (case fst (comprehensive_extraction (sample_service 2)
        ''uploads/pages/page.1.png'' (divisions_data (sample_db 1))
        [(''sheetNumber'', JStr ''Sheet 1''), (''sheetName'', JStr ''Plan - Page 1'')])
        of Comprehensive r \<Rightarrow> r))) = 1"
    by code_simp
  have c: "fst (comprehensive_extract_all_pages (sample_env True 2) (sample_db 1) 1)
       = \<lparr>resp_status = 200,
          resp_body = BulkOk \<lparr>bo_totalPages = 1, bo_processedPages = 0, bo_totalItemsExtracted = 0,
            bo_pageResults = [], bo_totalCost = 0, bo_totalTokensUsed = 0, bo_creditBalance = 1\<rparr>\<rparr>"
    by code_simp
  have d: "fst (snd (comprehensive_extract_all_pages (sample_env True 2) (sample_db 1) 1)) = sample_db 1"
    by code_simp
  have e: "length (snd (snd (comprehensive_extract_all_pages (sample_env True 2) (sample_db 1) 1))) = 4"
    by code_simp
  show ?thesis
    by (rule conjI [OF a conjI [OF b conjI [OF c conjI [OF d e]]]])
qed

section \<open>Properties of the extraction pipeline\<close>

text \<open>A reply that holds one JSON object, with any text before it that has no opening
  brace and any text after it that has no closing brace: the text that is parsed is the
  object.\<close>

lemma json_text_cut:
  assumes "CHR 0x7B \<notin> set pre" and "js \<noteq> []" and "hd js = CHR 0x7B" and "last js = CHR 0x7D"
    and "CHR 0x7D \<notin> set post"
  shows "json_text (pre @ js @ post) = Inr js"
proof -
  obtain js' where js: "js = CHR 0x7B # js'"
    using assms(2,3) by (cases js) auto
  have first: "takeWhile (\<lambda>x. x \<noteq> CHR 0x7B) (pre @ js @ post) = pre"
    using assms(1) unfolding js by (subst takeWhile_append2) auto
  obtain sj where sj: "rev js = CHR 0x7D # sj"
    using assms(2,4) by (cases "rev js") (auto simp: last_rev [symmetric] hd_rev)
  have final: "takeWhile (\<lambda>x. x \<noteq> CHR 0x7D) (rev (pre @ js @ post)) = rev post"
    using assms(5) unfolding rev_append sj append_assoc by (subst takeWhile_append2) auto
  have opened: "CHR 0x7B \<in> set (pre @ js @ post)"
    by (simp add: js)
  have closed: "CHR 0x7D \<in> set (pre @ js @ post)"
    using sj by (metis UnCI list.set_intros(1) set_append set_rev)
  have start: "py_find (pre @ js @ post) (CHR 0x7B) = int (length pre)"
    unfolding py_find_def first using opened by simp
  have stop: "py_rfind (pre @ js @ post) (CHR 0x7D) = int (length pre) + int (length js) - 1"
    unfolding py_rfind_def final using closed by simp
  have pos: "0 < length js"
    using assms(2) by simp
  have cut: "py_slice (pre @ js @ post) (int (length pre)) (int (length pre) + int (length js)) = js"
    by (simp add: py_slice_def)
  from pos have "int (length pre) + int (length js) - 1 \<noteq> - 1"
    by linarith
  then show ?thesis
    by (simp add: json_text_def start stop cut Let_def)
qed

lemma process_item_division:
  assumes "process_item lower ds it = Inr p" and "ds \<noteq> []"
  shows "csiDivision p \<in> set ds"
proof -
  from assms(1) obtain entries d where
    "find_matching_division lower (dict_get entries ''csiDivision'' (JObj [])) ds = Inr d"
    "csiDivision p = d"
    by (auto simp: process_item_def split: json.splits sum.splits)
  with assms(2) show ?thesis
    by (auto dest: find_matching_division_member)
qed

lemma process_items_division:
  assumes "process_items lower ds its = Inr ps" and "ds \<noteq> []"
  shows "\<forall>p\<in>set ps. csiDivision p \<in> set ds"
  using assms(1)
proof (induction its arbitrary: ps)
  case Nil
  then show ?case by simp
next
  case (Cons it its)
  then obtain p ps' where p: "process_item lower ds it = Inr p"
    and ps': "process_items lower ds its = Inr ps'" and ps: "ps = p # ps'"
    by (auto split: sum.splits)
  from process_item_division [OF p assms(2)] Cons.IH [OF ps'] ps show ?case
    by simp
qed

lemma smart_items_division:
  assumes "ds \<noteq> []"
  shows "\<forall>p\<in>set (extractedItems (fst (smart_extraction_analysis env t img ds md))). csiDivision p \<in> set ds"
proof -
  have parsed: "\<forall>p\<in>set (extractedItems r). csiDivision p \<in> set ds"
    if "parse_smart_body env reply_text ds = Inr r" for reply_text r
  proof -
    from that obtain its ps where "process_items (str_lower env) ds its = Inr ps"
      "extractedItems r = ps"
      by (auto simp: parse_smart_body_def split: sum.splits option.splits)
    with process_items_division [OF _ assms] show ?thesis
      by blast
  qed
  have "\<forall>p\<in>set (extractedItems (parse_smart_extraction_response env reply_text ds)). csiDivision p \<in> set ds"
    for reply_text
    using parsed [of reply_text]
    by (cases "parse_smart_body env reply_text ds")
      (simp_all add: parse_smart_extraction_response_def failed_smart_def)
  then show ?thesis
    by (simp add: smart_extraction_analysis_def Let_def failed_smart_def split: option.splits)
qed

lemma process_items_all2:
  assumes "list_all2 (\<lambda>it p. \<exists>entries. it = JObj entries
            \<and> find_matching_division lower (dict_get entries ''csiDivision'' (JObj [])) ds
                = Inr (csiDivision p)
            \<and> dict_get entries ''location'' (JObj []) = JObj (location p)
            \<and> itemName p = dict_get entries ''itemName'' (JStr ''Unnamed Item'')
            \<and> category p = dict_get entries ''category'' (JStr ''material'')
            \<and> procurementData p = dict_get entries ''procurementData'' (JObj [])
            \<and> confidence p = dict_get (location p) ''confidence'' (JFloat (round_double (4 / 5))))
          its ps"
  shows "process_items lower ds its = Inr ps"
  using assms
proof (induction rule: list_all2_induct)
  case Nil
  then show ?case by simp
next
  case (Cons it its p ps)
  from Cons.hyps(1) have "process_item lower ds it = Inr p"
    by (auto simp: process_item_def)
  with Cons.IH show ?case
    by simp
qed

text \<open>
  C6. On a page image that can be read, \<open>comprehensive_extraction\<close> makes four calls to
  the outside, in this order: the OCR engine, the image file, the model for the smart
  extraction, and the model for the NLP analysis. The first request carries the image
  and, in its system prompt, the code and name of the first twenty divisions; both
  requests end with the stripped OCR text. When the first reply holds a JSON object
  whose items are dicts with a division the matcher accepts and a location that is a
  dict, the smart extraction succeeds and returns one line item for each, with the
  division matched in the supplied list and the defaults for what the item leaves out;
  the division of a returned item is always one of the supplied list. When the second
  reply holds a JSON object with a usable summary, the NLP analysis returns it. The
  insights are computed from these two results, and the result holds all three, with
  the processing time rounded to two decimals and the number of OCR characters.
\<close>

theorem comprehensive_extraction_pipeline:
  assumes readable: "file_base64 env image_path = Some img"
    and ocr: "ocr_text = (case tesseract env image_path of None \<Rightarrow> [] | Some t \<Rightarrow> str_strip env t)"
    and smart: "q1 = \<lparr>req_model = ''claude-sonnet-4-20250514'', req_max_tokens = 4000,
        req_system = system_prompt_head env
          @ py_join newline (map (\<lambda>d. ''- '' @ div_code d @ '': '' @ div_name d) (take 20 divisions))
          @ system_prompt_tail env,
        req_text = user_prompt env drawing_metadata @ newline @ newline @ ''OCR Text: '' @ ocr_text,
        req_image = Some img\<rparr>"
    and nlp: "q2 = \<lparr>req_model = ''claude-sonnet-4-20250514'', req_max_tokens = 3000,
        req_system = nlp_prompt env,
        req_text = ''Analyze this construction document text for requirements and compliance:''
                   @ newline @ newline @ ocr_text,
        req_image = None\<rparr>"
  shows "\<exists>r. comprehensive_extraction env image_path divisions drawing_metadata =
        (Comprehensive r, [OcrRun image_path, ImageRead image_path, LlmCall q1, LlmCall q2])
     \<and> (\<forall>pre js post reply its ps.
           claude env q1 = Some (pre @ js @ post)
         \<and> CHR 0x7B \<notin> set pre \<and> js \<noteq> [] \<and> hd js = CHR 0x7B \<and> last js = CHR 0x7D
         \<and> CHR 0x7D \<notin> set post
         \<and> json_loads env js = Some (JObj reply)
         \<and> dict_get reply ''extractedItems'' (JArr []) = JArr its
         \<and> list_all2 (\<lambda>it p. \<exists>entries. it = JObj entries
              \<and> find_matching_division (str_lower env) (dict_get entries ''csiDivision'' (JObj []))
                   divisions = Inr (csiDivision p)
              \<and> dict_get entries ''location'' (JObj []) = JObj (location p)
              \<and> itemName p = dict_get entries ''itemName'' (JStr ''Unnamed Item'')
              \<and> category p = dict_get entries ''category'' (JStr ''material'')
              \<and> procurementData p = dict_get entries ''procurementData'' (JObj [])
              \<and> confidence p = dict_get (location p) ''confidence'' (JFloat (round_double (4 / 5))))
             its ps
         \<longrightarrow> smartExtraction r = \<lparr>sm_success = True, sm_error = None, extractedItems = ps,
                                  sm_summary = dict_get reply ''summary'' (JObj [])\<rparr>)
     \<and> (divisions \<noteq> [] \<longrightarrow> (\<forall>p\<in>set (extractedItems (smartExtraction r)). csiDivision p \<in> set divisions))
     \<and> (\<forall>pre js post reply summary.
           claude env q2 = Some (pre @ js @ post)
         \<and> CHR 0x7B \<notin> set pre \<and> js \<noteq> [] \<and> hd js = CHR 0x7B \<and> last js = CHR 0x7D
         \<and> CHR 0x7D \<notin> set post
         \<and> json_loads env js = Some (JObj reply)
         \<and> dict_get reply ''summary'' (JObj []) = JObj summary
         \<longrightarrow> enhancedNLP r = NlpOk (JObj reply))
     \<and> combinedInsights r = generate_combined_insights (smartExtraction r) (enhancedNLP r)
     \<and> totalTime r = py_round2 (elapsed env)
     \<and> ocrCharacters r = str_len ocr_text"
proof -
  define sm where "sm = fst (smart_extraction_analysis env ocr_text img divisions drawing_metadata)"
  define nl where "nl = fst (enhanced_nlp_analysis env ocr_text)"
  define r where "r = \<lparr>smartExtraction = sm, enhancedNLP = nl,
     combinedInsights = generate_combined_insights sm nl,
     totalTime = py_round2 (elapsed env), ocrCharacters = str_len ocr_text\<rparr>"
  have stripped: "perform_ocr env image_path = ocr_text"
    by (simp add: perform_ocr_def ocr)
  have req1: "smart_request env ocr_text img divisions drawing_metadata = q1"
    by (simp add: smart_request_def build_smart_extraction_prompt_def smart)
  have req2: "nlp_request env ocr_text = q2"
    by (simp add: nlp_request_def nlp)
  have ev1: "snd (smart_extraction_analysis env ocr_text img divisions drawing_metadata) = [LlmCall q1]"
    by (simp add: smart_extraction_analysis_def Let_def req1 split: option.splits)
  have ev2: "snd (enhanced_nlp_analysis env ocr_text) = [LlmCall q2]"
    by (simp add: enhanced_nlp_analysis_def Let_def req2 split: option.splits sum.splits)
  have run: "comprehensive_extraction env image_path divisions drawing_metadata =
        (Comprehensive r, [OcrRun image_path, ImageRead image_path, LlmCall q1, LlmCall q2])"
    using ev1 ev2
    by (simp add: comprehensive_extraction_def Let_def split_beta readable stripped r_def sm_def nl_def)
  have items: "sm = \<lparr>sm_success = True, sm_error = None, extractedItems = ps,
                     sm_summary = dict_get reply ''summary'' (JObj [])\<rparr>"
    if "claude env q1 = Some (pre @ js @ post)"
      and "CHR 0x7B \<notin> set pre" "js \<noteq> []" "hd js = CHR 0x7B" "last js = CHR 0x7D" "CHR 0x7D \<notin> set post"
      and "json_loads env js = Some (JObj reply)"
      and "dict_get reply ''extractedItems'' (JArr []) = JArr its"
      and "list_all2 (\<lambda>it p. \<exists>entries. it = JObj entries
              \<and> find_matching_division (str_lower env) (dict_get entries ''csiDivision'' (JObj []))
                   divisions = Inr (csiDivision p)
              \<and> dict_get entries ''location'' (JObj []) = JObj (location p)
              \<and> itemName p = dict_get entries ''itemName'' (JStr ''Unnamed Item'')
              \<and> category p = dict_get entries ''category'' (JStr ''material'')
              \<and> procurementData p = dict_get entries ''procurementData'' (JObj [])
              \<and> confidence p = dict_get (location p) ''confidence'' (JFloat (round_double (4 / 5))))
             its ps"
    for pre js post reply its ps
  proof -
    have cut: "json_text (pre @ js @ post) = Inr js"
      using that(2-6) by (rule json_text_cut)
    have built: "process_items (str_lower env) divisions its = Inr ps"
      using that(9) by (rule process_items_all2)
    show ?thesis
      by (simp add: sm_def smart_extraction_analysis_def Let_def req1 that(1)
          parse_smart_extraction_response_def parse_smart_body_def cut that(7) py_get_def that(8)
          py_iter_def built)
  qed
  have taxonomy: "divisions \<noteq> [] \<longrightarrow> (\<forall>p\<in>set (extractedItems sm). csiDivision p \<in> set divisions)"
    unfolding sm_def using smart_items_division by blast
  have analysis: "nl = NlpOk (JObj reply)"
    if "claude env q2 = Some (pre @ js @ post)"
      and "CHR 0x7B \<notin> set pre" "js \<noteq> []" "hd js = CHR 0x7B" "last js = CHR 0x7D" "CHR 0x7D \<notin> set post"
      and "json_loads env js = Some (JObj reply)"
      and "dict_get reply ''summary'' (JObj []) = JObj summary"
    for pre js post reply summary
  proof -
    have cut: "json_text (pre @ js @ post) = Inr js"
      using that(2-6) by (rule json_text_cut)
    show ?thesis
      by (simp add: nl_def enhanced_nlp_analysis_def Let_def req2 that(1) parse_nlp_response_def cut
          that(7) py_get_def that(8))
  qed
  have fields: "smartExtraction r = sm" "enhancedNLP r = nl"
    "combinedInsights r = generate_combined_insights sm nl"
    "totalTime r = py_round2 (elapsed env)" "ocrCharacters r = str_len ocr_text"
    by (simp_all add: r_def)
  show ?thesis
    apply (rule exI [of _ r])
    apply (simp only: fields)
    apply (intro conjI allI impI)
    subgoal by (rule run)
    subgoal for pre js post reply its ps by (elim conjE) (rule items)
    subgoal using taxonomy by blast
    subgoal for pre js post reply summary by (elim conjE) (rule analysis)
    subgoal by (rule refl)
    subgoal by (rule refl)
    subgoal by (rule refl)
    done
qed

text \<open>
  The theorem on the sample page. The OCR text is stripped of its blanks; the system
  prompt lists the two divisions; the item of the first reply, whose division is named
  in capitals, becomes a line item of division 8, which is not the first of the list;
  the second reply is returned as it was parsed; one item and one requirement give two
  data points and a coverage of 100; and the 2.514 seconds of the run are reported as the
  float next to 2.51.
\<close>

theorem comprehensive_extraction_pipeline_witness:
  "file_base64 (sample_service (2514 / 1000)) ''uploads/pages/page.1.png'' = Some ''aW1n''
   \<and> ''DOOR A1'' = (case tesseract (sample_service (2514 / 1000)) ''uploads/pages/page.1.png'' of
                      None \<Rightarrow> [] | Some t \<Rightarrow> str_strip (sample_service (2514 / 1000)) t)
   \<and> snd (comprehensive_extraction (sample_service (2514 / 1000)) ''uploads/pages/page.1.png'' sample_divisions
             [(''sheetNumber'', JStr ''Sheet 1'')])
       = [OcrRun ''uploads/pages/page.1.png'', ImageRead ''uploads/pages/page.1.png'',
          LlmCall \<lparr>req_model = ''claude-sonnet-4-20250514'', req_max_tokens = 4000,
                   req_system = ''DIVISIONS: - 03 00 00: Concrete'' @ [CHR 0x0A]
                                @ ''- 08 00 00: Openings END'',
                   req_text = ''Extract.'' @ [CHR 0x0A, CHR 0x0A] @ ''OCR Text: DOOR A1'',
                   req_image = Some ''aW1n''\<rparr>,
          LlmCall \<lparr>req_model = ''claude-sonnet-4-20250514'', req_max_tokens = 3000,
                   req_system = ''Analyze.'',
                   req_text = ''Analyze this construction document text for requirements and compliance:''
                              @ [CHR 0x0A, CHR 0x0A] @ ''DOOR A1'',
                   req_image = None\<rparr>]
   \<and> fst (comprehensive_extraction (sample_service (2514 / 1000)) ''uploads/pages/page.1.png'' sample_divisions
             [(''sheetNumber'', JStr ''Sheet 1'')])
       = Comprehensive
           \<lparr>smartExtraction =
              \<lparr>sm_success = True, sm_error = None,
               extractedItems =
                 [\<lparr>itemName = JStr ''Door A1'', category = JStr ''material'',
                   csiDivision = \<lparr>div_id = 8, div_name = ''Openings'', div_code = ''08 00 00''\<rparr>,
                   procurementData = JObj [], location = [],
                   confidence = JFloat (round_double (4 / 5))\<rparr>],
               sm_summary = JObj []\<rparr>,
            enhancedNLP =
              NlpOk (JObj [(''requirements'', JArr [JObj [(''content'', JStr ''Door A1 shall be fire rated'')]]),
                           (''summary'', JObj [(''totalRequirements'', JInt 1)])]),
            combinedInsights =
              \<lparr>totalDataPoints = NInt 2, requirementsCoverage = 100,
               recommendedActions = [''Consider manual extraction for items not detected automatically''],
               extractionQuality = ''poor''\<rparr>,
            totalTime = 1413004383087493 / 562949953421312, ocrCharacters = 7\<rparr>
   \<and> sample_divisions \<noteq> []
   \<and> \<lparr>div_id = 8, div_name = ''Openings'', div_code = ''08 00 00''\<rparr> \<in> set sample_divisions"
proof -
  let ?env = "sample_service (2514 / 1000)"
  let ?p = "''uploads/pages/page.1.png''"
  let ?md = "[(''sheetNumber'', JStr ''Sheet 1'')]"
  let ?q1 = "\<lparr>req_model = ''claude-sonnet-4-20250514'', req_max_tokens = 4000,
                   req_system = ''DIVISIONS: - 03 00 00: Concrete'' @ [CHR 0x0A]
                                @ ''- 08 00 00: Openings END'',
                   req_text = ''Extract.'' @ [CHR 0x0A, CHR 0x0A] @ ''OCR Text: DOOR A1'',
                   req_image = Some ''aW1n''\<rparr>"
  let ?q2 = "\<lparr>req_model = ''claude-sonnet-4-20250514'', req_max_tokens = 3000,
                   req_system = ''Analyze.'',
                   req_text = ''Analyze this construction document text for requirements and compliance:''
                              @ [CHR 0x0A, CHR 0x0A] @ ''DOOR A1'',
                   req_image = None\<rparr>"
  let ?door = "\<lparr>itemName = JStr ''Door A1'', category = JStr ''material'',
                   csiDivision = \<lparr>div_id = 8, div_name = ''Openings'', div_code = ''08 00 00''\<rparr>,
                   procurementData = JObj [], location = [],
                   confidence = JFloat (round_double (4 / 5))\<rparr>"
  let ?sm = "\<lparr>sm_success = True, sm_error = None, extractedItems = [?door], sm_summary = JObj []\<rparr>"
  let ?nl = "NlpOk (JObj [(''requirements'', JArr [JObj [(''content'', JStr ''Door A1 shall be fire rated'')]]),
                           (''summary'', JObj [(''totalRequirements'', JInt 1)])])"
  let ?ins = "\<lparr>totalDataPoints = NInt 2, requirementsCoverage = 100,
               recommendedActions = [''Consider manual extraction for items not detected automatically''],
               extractionQuality = ''poor''\<rparr>"
  have readable: "file_base64 ?env ?p = Some ''aW1n''"
    by (simp add: sample_service_def)
  have ocr: "''DOOR A1'' = (case tesseract ?env ?p of None \<Rightarrow> [] | Some t \<Rightarrow> str_strip ?env t)"
    by code_simp
  have smart: "?q1 = \<lparr>req_model = ''claude-sonnet-4-20250514'', req_max_tokens = 4000,
        req_system = system_prompt_head ?env
          @ py_join newline (map (\<lambda>d. ''- '' @ div_code d @ '': '' @ div_name d) (take 20 sample_divisions))
          @ system_prompt_tail ?env,
        req_text = user_prompt ?env ?md @ newline @ newline @ ''OCR Text: '' @ ''DOOR A1'',
        req_image = Some ''aW1n''\<rparr>"
    by code_simp
  have nlp: "?q2 = \<lparr>req_model = ''claude-sonnet-4-20250514'', req_max_tokens = 3000,
        req_system = nlp_prompt ?env,
        req_text = ''Analyze this construction document text for requirements and compliance:''
                   @ newline @ newline @ ''DOOR A1'',
        req_image = None\<rparr>"
    by code_simp
  from comprehensive_extraction_pipeline [OF readable ocr smart nlp]
  obtain r where run: "comprehensive_extraction ?env ?p sample_divisions ?md =
        (Comprehensive r, [OcrRun ?p, ImageRead ?p, LlmCall ?q1, LlmCall ?q2])"
    and items: "\<And>pre js post reply its ps.
           claude ?env ?q1 = Some (pre @ js @ post)
         \<and> CHR 0x7B \<notin> set pre \<and> js \<noteq> [] \<and> hd js = CHR 0x7B \<and> last js = CHR 0x7D
         \<and> CHR 0x7D \<notin> set post
         \<and> json_loads ?env js = Some (JObj reply)
         \<and> dict_get reply ''extractedItems'' (JArr []) = JArr its
         \<and> list_all2 (\<lambda>it p. \<exists>entries. it = JObj entries
              \<and> find_matching_division (str_lower ?env) (dict_get entries ''csiDivision'' (JObj []))
                   sample_divisions = Inr (csiDivision p)
              \<and> dict_get entries ''location'' (JObj []) = JObj (location p)
              \<and> itemName p = dict_get entries ''itemName'' (JStr ''Unnamed Item'')
              \<and> category p = dict_get entries ''category'' (JStr ''material'')
              \<and> procurementData p = dict_get entries ''procurementData'' (JObj [])
              \<and> confidence p = dict_get (location p) ''confidence'' (JFloat (round_double (4 / 5))))
             its ps
         \<Longrightarrow> smartExtraction r = \<lparr>sm_success = True, sm_error = None, extractedItems = ps,
                                  sm_summary = dict_get reply ''summary'' (JObj [])\<rparr>"
    and taxonomy: "sample_divisions \<noteq> [] \<longrightarrow>
        (\<forall>p\<in>set (extractedItems (smartExtraction r)). csiDivision p \<in> set sample_divisions)"
    and analysis: "\<And>pre js post reply summary.
           claude ?env ?q2 = Some (pre @ js @ post)
         \<and> CHR 0x7B \<notin> set pre \<and> js \<noteq> [] \<and> hd js = CHR 0x7B \<and> last js = CHR 0x7D
         \<and> CHR 0x7D \<notin> set post
         \<and> json_loads ?env js = Some (JObj reply)
         \<and> dict_get reply ''summary'' (JObj []) = JObj summary
         \<Longrightarrow> enhancedNLP r = NlpOk (JObj reply)"
    and combined: "combinedInsights r = generate_combined_insights (smartExtraction r) (enhancedNLP r)"
    and seconds: "totalTime r = py_round2 (elapsed ?env)"
    and characters: "ocrCharacters r = str_len ''DOOR A1''"
    by blast
  have reply1: "claude ?env ?q1 = Some (''Here are the items: '' @ sample_smart_json @ '' Done.'')"
    by (simp add: sample_service_def)
  have braces1: "CHR 0x7B \<notin> set ''Here are the items: ''" "sample_smart_json \<noteq> []"
    "hd sample_smart_json = CHR 0x7B" "last sample_smart_json = CHR 0x7D" "CHR 0x7D \<notin> set '' Done.''"
    by (simp_all add: sample_smart_json_def)
  have loads1: "json_loads ?env sample_smart_json = Some (JObj sample_smart_reply)"
    by (simp add: sample_service_def)
  have its: "dict_get sample_smart_reply ''extractedItems'' (JArr [])
      = JArr [JObj [(''itemName'', JStr ''Door A1''), (''csiDivision'', JObj [(''name'', JStr ''OPENINGS'')])]]"
    by (simp add: sample_smart_reply_def dict_get_def)
  have matched: "find_matching_division (str_lower ?env) (JObj [(''name'', JStr ''OPENINGS'')]) sample_divisions
      = Inr \<lparr>div_id = 8, div_name = ''Openings'', div_code = ''08 00 00''\<rparr>"
    by code_simp
  have rel: "list_all2 (\<lambda>it p. \<exists>entries. it = JObj entries
              \<and> find_matching_division (str_lower ?env) (dict_get entries ''csiDivision'' (JObj []))
                   sample_divisions = Inr (csiDivision p)
              \<and> dict_get entries ''location'' (JObj []) = JObj (location p)
              \<and> itemName p = dict_get entries ''itemName'' (JStr ''Unnamed Item'')
              \<and> category p = dict_get entries ''category'' (JStr ''material'')
              \<and> procurementData p = dict_get entries ''procurementData'' (JObj [])
              \<and> confidence p = dict_get (location p) ''confidence'' (JFloat (round_double (4 / 5))))
             [JObj [(''itemName'', JStr ''Door A1''), (''csiDivision'', JObj [(''name'', JStr ''OPENINGS'')])]]
             [?door]"
    using matched by (simp add: dict_get_def)
  have no_summary: "dict_get sample_smart_reply ''summary'' (JObj []) = JObj []"
    by (simp add: sample_smart_reply_def dict_get_def)
  from items [of "''Here are the items: ''" sample_smart_json "'' Done.''" sample_smart_reply _ "[?door]"]
    reply1 braces1 loads1 its rel
  have sm: "smartExtraction r = ?sm"
    by (simp add: no_summary)
  have reply2: "claude ?env ?q2 = Some ([] @ sample_nlp_json @ [])"
    by (simp add: sample_service_def)
  have braces2: "sample_nlp_json \<noteq> []" "hd sample_nlp_json = CHR 0x7B" "last sample_nlp_json = CHR 0x7D"
    by (simp_all add: sample_nlp_json_def)
  have loads2: "json_loads ?env sample_nlp_json = Some (JObj sample_nlp_reply)"
    by (simp add: sample_service_def sample_nlp_json_def sample_smart_json_def)
  have summary: "dict_get sample_nlp_reply ''summary'' (JObj []) = JObj [(''totalRequirements'', JInt 1)]"
    by (simp add: sample_nlp_reply_def dict_get_def)
  from analysis [of "[]" sample_nlp_json "[]" sample_nlp_reply] reply2 braces2 loads2 summary
  have nl: "enhancedNLP r = ?nl"
    by (simp add: sample_nlp_reply_def)
  have "generate_combined_insights ?sm ?nl = ?ins"
    by code_simp
  with combined sm nl have ins: "combinedInsights r = ?ins"
    by simp
  have "py_round2 (elapsed ?env) = 1413004383087493 / 562949953421312"
    by code_simp
  with seconds have secs: "totalTime r = 1413004383087493 / 562949953421312"
    by simp
  have "str_len ''DOOR A1'' = 7"
    by code_simp
  with characters have chars: "ocrCharacters r = 7"
    by simp
  from sm nl ins secs chars have r: "r = \<lparr>smartExtraction = ?sm, enhancedNLP = ?nl,
      combinedInsights = ?ins, totalTime = 1413004383087493 / 562949953421312, ocrCharacters = 7\<rparr>"
    by (cases r) simp
  from run have events: "snd (comprehensive_extraction ?env ?p sample_divisions ?md)
      = [OcrRun ?p, ImageRead ?p, LlmCall ?q1, LlmCall ?q2]"
    by simp
  from run r have result: "fst (comprehensive_extraction ?env ?p sample_divisions ?md)
      = Comprehensive \<lparr>smartExtraction = ?sm, enhancedNLP = ?nl,
          combinedInsights = ?ins, totalTime = 1413004383087493 / 562949953421312, ocrCharacters = 7\<rparr>"
    by simp
  have some: "sample_divisions \<noteq> []"
    by (simp add: sample_divisions_def)
  from taxonomy some sm
  have listed: "\<lparr>div_id = 8, div_name = ''Openings'', div_code = ''08 00 00''\<rparr> \<in> set sample_divisions"
    by simp
  show ?thesis
    by (rule conjI [OF readable conjI [OF ocr conjI [OF events conjI [OF result conjI [OF some listed]]]]])
qed

end
